theory Spec2Isabelle
  imports Main "HOL-Library.Sublist"
begin

section \<open>JavaScript values and control flow\<close>

text \<open>
  Strings are lists of code units. A property that may be absent is an option, with
  \<open>None\<close> for \<open>undefined\<close>/\<open>null\<close>. \<open>a || b\<close> on such values yields \<open>a\<close> when it is truthy
  (present and non-empty) and \<open>b\<close> otherwise.
\<close>

definition truthy :: "string option \<Rightarrow> bool" where
  "truthy a = (case a of None \<Rightarrow> False | Some s \<Rightarrow> s \<noteq> [])"

definition or_js :: "string option \<Rightarrow> string option \<Rightarrow> string option" where
  "or_js a b = (if truthy a then a else b)"

text \<open>Template-literal conversion of a possibly absent string.\<close>

definition text_of :: "string option \<Rightarrow> string" where
  "text_of a = (case a of None \<Rightarrow> ''undefined'' | Some s \<Rightarrow> s)"

text \<open>\<open>xs.slice(0, n)\<close>: a negative end counts from the end of the array.\<close>

definition slice0 :: "int \<Rightarrow> 'a list \<Rightarrow> 'a list" where
  "slice0 n xs = (if 0 \<le> n then take (nat n) xs else take (length xs - nat (- n)) xs)"

text \<open>
  An async function is a state transformer that either returns a value or throws a
  message; \<open>await\<close> sequences two of them and lets an exception of the first pass,
  \<open>try_catch\<close> hands the exception to the handler.
\<close>

datatype 'a outcome = Returned 'a | Thrown string

type_synonym ('s, 'a) js = "'s \<Rightarrow> 'a outcome \<times> 's"

definition ret :: "'a \<Rightarrow> ('s, 'a) js" where
  "ret x = (\<lambda>s. (Returned x, s))"

definition throw :: "string \<Rightarrow> ('s, 'a) js" where
  "throw e = (\<lambda>s. (Thrown e, s))"

definition await :: "('s, 'a) js \<Rightarrow> ('a \<Rightarrow> ('s, 'b) js) \<Rightarrow> ('s, 'b) js" where
  "await m k = (\<lambda>s. case m s of
                       (Returned x, s') \<Rightarrow> k x s'
                     | (Thrown e, s') \<Rightarrow> (Thrown e, s'))"

definition try_catch :: "('s, 'a) js \<Rightarrow> (string \<Rightarrow> ('s, 'a) js) \<Rightarrow> ('s, 'a) js" where
  "try_catch m h = (\<lambda>s. case m s of
                           (Returned x, s') \<Rightarrow> (Returned x, s')
                         | (Thrown e, s') \<Rightarrow> h e s')"

section \<open>Data model\<close>

text \<open>A normalized feed item (\<open>normalizeItem\<close>), with the three properties \<open>runBot\<close> attaches.\<close>

record item =
  guid :: "string option"
  link :: "string option"
  title :: string
  content :: string
  pubDate :: "string option"
  pubDateObject :: "int option"
  author :: "string option"
  categories :: "string list"
  feedUrl :: string
  feedTitle :: "string option"
  aiSummary :: "string option"
  originalContent :: "string option"

text \<open>
  A row of \<open>processed_rss_items\<close> (its CREATE TABLE is in
  scripts/create-profiles-table.sql, lines 135-157): the text columns
  \<open>rss_url\<close>, \<open>item_guid\<close>, \<open>item_link\<close>, \<open>bot_id\<close>, \<open>bot_username\<close> are NOT NULL, and
  \<open>(item_guid, bot_id)\<close> and \<open>(item_link, bot_id)\<close> are UNIQUE. Post ids are numbers here.
\<close>

record ledger_row =
  rss_url :: string
  item_guid :: string
  item_link :: string
  item_title :: string
  bot_id :: string
  bot_username :: string
  created_post_id :: "nat option"
  processed_at :: int

text \<open>A row of \<open>posts\<close>, as \<open>createPost\<close> writes it.\<close>

record post =
  post_id :: nat
  post_content :: string
  content_type :: string
  rss_original_content :: "string option"
  rss_ai_summary :: "string option"
  rss_source_url :: "string option"
  rss_source_name :: "string option"
  user_id :: string
  user_name :: string
  user_email :: string
  user_avatar :: string
  image_urls :: "string list"
  created_at :: int
  updated_at :: int

section \<open>The store behind the Supabase client\<close>

text \<open>
  The hosted database is outside the repository. Its state is the three tables the bots
  use, a clock in milliseconds, and the sequence of requests received so far. What a
  request does when the service misbehaves is a parameter: for each request the client
  either answers from the tables, answers with an error object carrying a code, or throws.
\<close>

datatype request =
    SelectByGuid string string
  | SelectByLink string string
  | InsertProcessed string "string option" "string option"
  | InsertPost string "string option" string
  | SelectProfile string

datatype fault = Healthy | Fails string | Crashes string

type_synonym supabase = "request \<Rightarrow> fault"

datatype 'a reply = Reply (reply_data: "'a option") (reply_error: "string option")

record world =
  ledger :: "ledger_row list"
  posts :: "post list"
  profiles :: "string list"
  clock :: int
  requests :: "request list"

definition send :: "supabase \<Rightarrow> request \<Rightarrow> (world \<Rightarrow> 'a reply \<times> world) \<Rightarrow> (world, 'a reply) js" where
  "send sb q serve = (\<lambda>w.
     let w' = w\<lparr>requests := requests w @ [q]\<rparr> in
     case sb q of
       Crashes m \<Rightarrow> (Thrown m, w')
     | Fails c \<Rightarrow> (Returned (Reply None (Some c)), w')
     | Healthy \<Rightarrow> (case serve w' of (r, w'') \<Rightarrow> (Returned r, w'')))"

text \<open>
  \<open>.eq('bot_id', b).eq('item_guid', g).limit(1).maybeSingle()\<close>: the first matching row,
  if any. The query builder writes the value into the filter as text, so an absent guid
  or link is compared as the text \<open>undefined\<close>.
\<close>

definition select_by_guid :: "supabase \<Rightarrow> string \<Rightarrow> string option \<Rightarrow> (world, ledger_row reply) js" where
  "select_by_guid sb b g =
     send sb (SelectByGuid b (text_of g))
       (\<lambda>w. (Reply (find (\<lambda>r. bot_id r = b \<and> item_guid r = text_of g) (ledger w)) None, w))"

definition select_by_link :: "supabase \<Rightarrow> string \<Rightarrow> string option \<Rightarrow> (world, ledger_row reply) js" where
  "select_by_link sb b l =
     send sb (SelectByLink b (text_of l))
       (\<lambda>w. (Reply (find (\<lambda>r. bot_id r = b \<and> item_link r = text_of l) (ledger w)) None, w))"

text \<open>
  \<open>.insert({...})\<close> into \<open>processed_rss_items\<close>: an absent guid or link violates NOT NULL
  (code 23502), a row of the same bot with the same guid or the same link violates a
  UNIQUE constraint (code 23505); otherwise the row is appended.
\<close>

definition unique_violation :: "ledger_row list \<Rightarrow> string \<Rightarrow> string \<Rightarrow> string \<Rightarrow> bool" where
  "unique_violation rows b g l =
     (\<exists>r \<in> set rows. bot_id r = b \<and> (item_guid r = g \<or> item_link r = l))"

definition insert_processed ::
  "supabase \<Rightarrow> string \<Rightarrow> string option \<Rightarrow> string option \<Rightarrow> string \<Rightarrow> string \<Rightarrow> string \<Rightarrow> nat option
     \<Rightarrow> int \<Rightarrow> (world, unit reply) js" where
  "insert_processed sb url g l ttl b uname pid at =
     send sb (InsertProcessed b g l)
       (\<lambda>w. case (g, l) of
               (Some g', Some l') \<Rightarrow>
                 if unique_violation (ledger w) b g' l'
                 then (Reply None (Some ''23505''), w)
                 else (Reply None None,
                       w\<lparr>ledger := ledger w @
                           [\<lparr>rss_url = url, item_guid = g', item_link = l', item_title = ttl,
                             bot_id = b, bot_username = uname, created_post_id = pid,
                             processed_at = at\<rparr>]\<rparr>)
             | _ \<Rightarrow> (Reply None (Some ''23502''), w))"

section \<open>Deduplicator (bots/lib/deduplicator.js)\<close>

text \<open>
  Lines 14-58. A returned \<open>guidError\<close> or \<open>linkError\<close> is only logged; the \<open>catch\<close> returns
  \<open>false\<close>.
\<close>

definition isItemProcessed :: "supabase \<Rightarrow> string \<Rightarrow> item \<Rightarrow> (world, bool) js" where
  "isItemProcessed sb botId it =
     try_catch
       (await (select_by_guid sb botId (guid it)) (\<lambda>guidReply.
          if reply_data guidReply \<noteq> None then ret True
          else await (select_by_link sb botId (link it)) (\<lambda>linkReply.
            if reply_data linkReply \<noteq> None then ret True
            else ret False)))
       (\<lambda>error. ret False)"

text \<open>Lines 69-101. \<open>processed_at\<close> is the time of the call.\<close>

definition markItemAsProcessed ::
  "supabase \<Rightarrow> string \<Rightarrow> string \<Rightarrow> item \<Rightarrow> nat option \<Rightarrow> (world, bool) js" where
  "markItemAsProcessed sb botId botUsername it postId =
     try_catch
       (\<lambda>w. await (insert_processed sb (feedUrl it) (guid it) (link it) (title it)
                      botId botUsername postId (clock w)) (\<lambda>r.
               case reply_error r of
                 Some code \<Rightarrow> if code = ''23505'' then ret True else ret False
               | None \<Rightarrow> ret True) w)
       (\<lambda>error. ret False)"

text \<open>Lines 110-130, with the \<open>for\<close> loop of lines 120-125 as \<open>filter_loop\<close>.\<close>

primrec filter_loop :: "supabase \<Rightarrow> string \<Rightarrow> item list \<Rightarrow> item list \<Rightarrow> (world, item list) js" where
  "filter_loop sb botId [] unprocessedItems = ret unprocessedItems"
| "filter_loop sb botId (it # rest) unprocessedItems =
     await (isItemProcessed sb botId it) (\<lambda>processed.
       filter_loop sb botId rest
         (if \<not> processed then unprocessedItems @ [it] else unprocessedItems))"

definition filterUnprocessedItems ::
  "supabase \<Rightarrow> string \<Rightarrow> item list option \<Rightarrow> (world, item list) js" where
  "filterUnprocessedItems sb botId items =
     (case items of
        None \<Rightarrow> ret []
      | Some xs \<Rightarrow> if length xs = 0 then ret [] else filter_loop sb botId xs [])"

section \<open>Bot configuration and the platform\<close>

record bot_config =
  cfg_id :: string
  cfg_name :: string
  cfg_username :: string
  cfg_email :: string
  cfg_user_id :: string
  cfg_avatar_url :: string
  cfg_feeds :: "string list option"
  cfg_summaryPrompt :: "string option"

text \<open>A raw entry and a parsed feed, as the \<open>rss-parser\<close> library returns them.\<close>

record raw_item =
  raw_guid :: "string option"
  raw_id :: "string option"
  raw_link :: "string option"
  raw_title :: "string option"
  raw_contentSnippet :: "string option"
  raw_content :: "string option"
  raw_description :: "string option"
  raw_summary :: "string option"
  raw_pubDate :: "string option"
  raw_published :: "string option"
  raw_isoDate :: "string option"
  raw_creator :: "string option"
  raw_author :: "string option"
  raw_categories :: "string list option"

record raw_feed =
  raw_feed_title :: "string option"
  raw_feed_items :: "raw_item list option"

text \<open>One source of the per-source fetch: what \<open>runBot\<close> reads of each element.\<close>

record feed =
  f_feedUrl :: string
  f_feedTitle :: "string option"
  f_items :: "item list"

text \<open>
  What the run takes from outside the repository's own code: the feed parser's
  \<open>parseURL\<close> (which may throw), \<open>new Date(text)\<close> (\<open>None\<close> for an invalid date, else
  milliseconds), and the host name of \<open>new URL(text)\<close> (\<open>None\<close> when it throws).
\<close>

text \<open>
  Modelled from the spec: \<open>fetchItemsForBotSeparately\<close> of bots/lib/rss-fetcher.js, which
  \<open>runBot\<close> calls, is not among the sources. It is the last field of the record, a parameter
  that, for a bot, a window in minutes and the time of the call, yields the sources kept
  separate, each with its date-filtered normalized items, newest first, or throws.
\<close>

record platform =
  parseURL :: "string \<Rightarrow> raw_feed outcome"
  parse_date :: "string \<Rightarrow> int option"
  hostname :: "string \<Rightarrow> string option"
  fetchItemsForBotSeparately :: "bot_config \<Rightarrow> int \<Rightarrow> int \<Rightarrow> feed list outcome"

definition or_default :: "string option \<Rightarrow> string \<Rightarrow> string" where
  "or_default a d = (case a of None \<Rightarrow> d | Some s \<Rightarrow> if s \<noteq> [] then s else d)"

definition is_space :: "char \<Rightarrow> bool" where
  "is_space c = (c \<in> {CHR 0x09, CHR 0x0A, CHR 0x0B, CHR 0x0C, CHR 0x0D, CHR 0x20, CHR 0xA0})"

definition trim :: "string \<Rightarrow> string" where
  "trim s = rev (dropWhile is_space (rev (dropWhile is_space s)))"

definition sleep :: "int \<Rightarrow> (world, unit) js" where
  "sleep ms = (\<lambda>w. (Returned (), w\<lparr>clock := clock w + ms\<rparr>))"

section \<open>Feed fetcher (bots/lib/rss-fetcher.js)\<close>

record feed_result =
  fr_success :: bool
  fr_feedUrl :: string
  fr_title :: "string option"
  fr_items :: "raw_item list"
  fr_error :: "string option"

definition fetchFeed :: "platform \<Rightarrow> string \<Rightarrow> feed_result" where
  "fetchFeed plat url =
     (case parseURL plat url of
        Returned fd \<Rightarrow>
          \<lparr>fr_success = True, fr_feedUrl = url, fr_title = raw_feed_title fd,
           fr_items = (case raw_feed_items fd of None \<Rightarrow> [] | Some xs \<Rightarrow> xs), fr_error = None\<rparr>
      | Thrown message \<Rightarrow>
          \<lparr>fr_success = False, fr_feedUrl = url, fr_title = None, fr_items = [],
           fr_error = Some message\<rparr>)"

text \<open>Lines 50-72. \<open>now\<close> is \<open>Date.now()\<close> at the call; times are in milliseconds.\<close>

definition filterItemsByDate :: "platform \<Rightarrow> int \<Rightarrow> raw_item list \<Rightarrow> int \<Rightarrow> raw_item list" where
  "filterItemsByDate plat now items minutesAgo =
     (let cutoffTime = now - minutesAgo * 60 * 1000 in
      filter (\<lambda>it.
        let pubDate = or_js (or_js (raw_pubDate it) (raw_published it)) (raw_isoDate it) in
        if \<not> truthy pubDate then False
        else (case parse_date plat (text_of pubDate) of
                None \<Rightarrow> False
              | Some itemDate \<Rightarrow> itemDate \<ge> cutoffTime)) items)"

definition normalizeItem :: "platform \<Rightarrow> raw_item \<Rightarrow> string \<Rightarrow> item" where
  "normalizeItem plat it url =
     (let content' = or_default (raw_contentSnippet it)
                      (or_default (raw_content it)
                        (or_default (raw_description it) (or_default (raw_summary it) [])));
          pubDate' = or_js (or_js (raw_pubDate it) (raw_published it)) (raw_isoDate it);
          guid' = or_js (or_js (raw_guid it) (raw_id it)) (raw_link it)
      in \<lparr>guid = guid', link = raw_link it, title = or_default (raw_title it) ''Untitled'',
          content = trim content', pubDate = pubDate',
          pubDateObject = (case pubDate' of None \<Rightarrow> None | Some d \<Rightarrow> parse_date plat d),
          author = (if truthy (raw_creator it) then raw_creator it
                    else if truthy (raw_author it) then raw_author it else None),
          categories = (case raw_categories it of None \<Rightarrow> [] | Some cs \<Rightarrow> cs),
          feedUrl = url, feedTitle = None, aiSummary = None, originalContent = None\<rparr>)"

text \<open>The comparator \<open>b.pubDateObject - a.pubDateObject\<close> of a stable sort: newest first.\<close>

definition newest_first :: "item list \<Rightarrow> item list" where
  "newest_first xs =
     sort_key (\<lambda>it. - (case pubDateObject it of None \<Rightarrow> 0 | Some t \<Rightarrow> t)) xs"

definition fetchMultipleFeeds :: "platform \<Rightarrow> int \<Rightarrow> string list \<Rightarrow> int \<Rightarrow> item list" where
  "fetchMultipleFeeds plat now feedUrls minutesAgo =
     (let feedResults = map (fetchFeed plat) feedUrls;
          allItems = concat (map (\<lambda>result.
            if \<not> fr_success result then []
            else map (\<lambda>it. normalizeItem plat it (fr_feedUrl result))
                   (filterItemsByDate plat now (fr_items result) minutesAgo)) feedResults)
      in newest_first allItems)"

definition fetchItemsForBot :: "platform \<Rightarrow> int \<Rightarrow> bot_config \<Rightarrow> int \<Rightarrow> item list" where
  "fetchItemsForBot plat now botConfig minutesAgo =
     (case cfg_feeds botConfig of
        None \<Rightarrow> []
      | Some urls \<Rightarrow> if length urls = 0 then [] else fetchMultipleFeeds plat now urls minutesAgo)"

section \<open>Summarizer (bots/lib/summarizer.js)\<close>

text \<open>
  The chat-completion call is a parameter: from the model name, the system prompt and the
  user message it yields the text of the first choice (\<open>None\<close> when the response carries
  none) or throws.
\<close>

type_synonym openai = "string \<Rightarrow> string \<Rightarrow> string \<Rightarrow> string option outcome"

definition default_system_prompt :: string where
  "default_system_prompt = ''You are a news bot. Summarize this article in a concise, engaging way (200-280 characters). Include relevant hashtags. Be informative and capture the key points.''"

definition articleContent :: "item \<Rightarrow> string" where
  "articleContent it =
     trim ([CHR 0x0A] @ ''Title: '' @ title it @ [CHR 0x0A, CHR 0x0A] @
           ''Content: '' @ take 2000 (content it) @ '' '' @
           (if length (content it) > 2000 then ''...'' else []) @ [CHR 0x0A, CHR 0x0A] @
           ''Link: '' @ text_of (link it) @ [CHR 0x0A] @ ''    '')"

definition generateSummary :: "openai \<Rightarrow> item \<Rightarrow> string option \<Rightarrow> string \<Rightarrow> string outcome" where
  "generateSummary ai it customPrompt model =
     (let attempt =
        (case ai model (or_default customPrompt default_system_prompt) (articleContent it) of
           Thrown e \<Rightarrow> Thrown e
         | Returned text \<Rightarrow>
            (let summary = map_option trim text in
             if \<not> truthy summary then Thrown ''Empty response from OpenAI''
             else Returned (text_of summary)))
      in case attempt of
           Returned summary \<Rightarrow> Returned summary
         | Thrown error \<Rightarrow>
             (let fallback = title it @ '' - '' @ text_of (link it)
              in Returned (take 280 fallback)))"

section \<open>Post creator (bots/lib/post-creator.js)\<close>

primrec replace_first :: "string \<Rightarrow> string \<Rightarrow> string \<Rightarrow> string" where
  "replace_first pat rep [] = (if pat = [] then rep else [])"
| "replace_first pat rep (c # cs) =
     (if take (length pat) (c # cs) = pat then rep @ drop (length pat) (c # cs)
      else c # replace_first pat rep cs)"

definition to_upper :: "char \<Rightarrow> char" where
  "to_upper c = (if 97 \<le> (of_char c :: nat) \<and> (of_char c :: nat) \<le> 122
                 then char_of ((of_char c :: nat) - 32) else c)"

definition extractDomainName :: "platform \<Rightarrow> string \<Rightarrow> string" where
  "extractDomainName plat url =
     (case hostname plat url of
        None \<Rightarrow> ''Unknown Source''
      | Some host \<Rightarrow>
          (case replace_first ''www.'' [] host of
             [] \<Rightarrow> []
           | c # cs \<Rightarrow> to_upper c # cs))"

text \<open>The label put before the content of a post: the newspaper sign (UTF-8) and a space.\<close>

definition source_label :: string where
  "source_label = [CHR 0xF0, CHR 0x9F, CHR 0x93, CHR 0xB0, CHR 0x20]"

text \<open>\<open>.from('posts').insert(postData).select().single()\<close>: the stored row with its new id.\<close>

definition insert_post :: "supabase \<Rightarrow> post \<Rightarrow> (world, post reply) js" where
  "insert_post sb postData =
     send sb (InsertPost (user_id postData) (rss_source_url postData) (post_content postData))
       (\<lambda>w. let row = postData\<lparr>post_id := length (posts w)\<rparr>
             in (Reply (Some row) None, w\<lparr>posts := posts w @ [row]\<rparr>))"

definition createPost ::
  "supabase \<Rightarrow> bot_config \<Rightarrow> string \<Rightarrow> string option \<Rightarrow> string option \<Rightarrow> string option
     \<Rightarrow> string option \<Rightarrow> (world, post option) js" where
  "createPost sb botConfig content' sourceUrl sourceName originalContent' aiSummary' =
     try_catch
       (\<lambda>w.
          let formattedContent =
                (if truthy sourceName
                 then source_label @ text_of sourceName @ [CHR 0x0A, CHR 0x0A] @ content'
                 else content');
              postData = \<lparr>post_id = 0, post_content = formattedContent,
                          content_type = ''rss_bot'',
                          rss_original_content = originalContent', rss_ai_summary = aiSummary',
                          rss_source_url = sourceUrl, rss_source_name = sourceName,
                          user_id = cfg_user_id botConfig, user_name = cfg_name botConfig,
                          user_email = cfg_email botConfig,
                          user_avatar = cfg_avatar_url botConfig, image_urls = [],
                          created_at = clock w, updated_at = clock w\<rparr>
          in await (insert_post sb postData) (\<lambda>r.
               if reply_error r \<noteq> None then ret None
               else (case reply_data r of
                       None \<Rightarrow> throw ''Cannot read properties of null''
                     | Some data \<Rightarrow> ret (Some data))) w)
       (\<lambda>error. ret None)"

definition displayContent :: "item \<Rightarrow> string" where
  "displayContent it =
     or_default (aiSummary it)
       (or_default (originalContent it) (if content it \<noteq> [] then content it else title it))"

definition original_of :: "item \<Rightarrow> string" where
  "original_of it =
     or_default (originalContent it) (if content it \<noteq> [] then content it else title it)"

definition sourceName_of :: "platform \<Rightarrow> item \<Rightarrow> string option" where
  "sourceName_of plat it = or_js (feedTitle it) (Some (extractDomainName plat (feedUrl it)))"

primrec post_loop ::
  "supabase \<Rightarrow> platform \<Rightarrow> bot_config \<Rightarrow> item list \<Rightarrow> (post \<times> item) list
     \<Rightarrow> (world, (post \<times> item) list) js" where
  "post_loop sb plat botConfig [] createdPosts = ret createdPosts"
| "post_loop sb plat botConfig (it # rest) createdPosts =
     await
       (try_catch
          (await (createPost sb botConfig (displayContent it) (link it) (sourceName_of plat it)
                    (Some (original_of it)) (aiSummary it)) (\<lambda>p.
             let createdPosts' = (case p of None \<Rightarrow> createdPosts
                                  | Some p' \<Rightarrow> createdPosts @ [(p', it)])
             in await (if rest \<noteq> [] then sleep 500 else ret ()) (\<lambda>_. ret createdPosts')))
          (\<lambda>error. ret createdPosts))
       (\<lambda>createdPosts'. post_loop sb plat botConfig rest createdPosts')"

definition createPostsBatch ::
  "supabase \<Rightarrow> platform \<Rightarrow> bot_config \<Rightarrow> item list \<Rightarrow> int \<Rightarrow> bool
     \<Rightarrow> (world, (post \<times> item) list) js" where
  "createPostsBatch sb plat botConfig items maxPosts dryRun' =
     (if length items = 0 then ret []
      else let itemsToPost = slice0 maxPosts items
           in if dryRun' then ret []
              else post_loop sb plat botConfig itemsToPost [])"

definition select_profile :: "supabase \<Rightarrow> string \<Rightarrow> (world, string reply) js" where
  "select_profile sb userId =
     send sb (SelectProfile userId)
       (\<lambda>w. if userId \<in> set (profiles w) then (Reply (Some userId) None, w)
             else (Reply None (Some ''PGRST116''), w))"

definition verifyBotProfile :: "supabase \<Rightarrow> string \<Rightarrow> (world, bool) js" where
  "verifyBotProfile sb userId =
     try_catch
       (await (select_profile sb userId) (\<lambda>r.
          if reply_error r \<noteq> None \<or> reply_data r = None then ret False else ret True))
       (\<lambda>error. ret False)"

section \<open>Bot runner (bots/lib/bot-runner.js)\<close>

record options =
  fetchWindowMinutes :: int
  maxPostsPerRun :: int
  maxPostsPerFeed :: int
  processFeedsSeparately :: bool
  openaiDelayMs :: int
  openaiModel :: string
  dryRun :: bool

text \<open>The defaults of the destructuring \<open>const {...} = options\<close>.\<close>

definition default_options :: options where
  "default_options =
     \<lparr>fetchWindowMinutes = 60, maxPostsPerRun = 5, maxPostsPerFeed = 2,
      processFeedsSeparately = True, openaiDelayMs = 1000, openaiModel = ''gpt-4o-mini'',
      dryRun = False\<rparr>"

record results =
  botId :: string
  botName :: string
  success :: bool
  itemsFetched :: nat
  itemsNew :: nat
  itemsSummarized :: nat
  postsCreated :: nat
  feedsProcessed :: nat
  errors :: "string list"
  duration :: int

text \<open>
  Inside \<open>runBot\<close> the state is the \<open>results\<close> object, which the function mutates, together
  with the world.
\<close>

definition in_world :: "(world, 'a) js \<Rightarrow> (results \<times> world, 'a) js" where
  "in_world m = (\<lambda>(r, w). case m w of (out, w') \<Rightarrow> (out, (r, w')))"

definition set_results :: "(results \<Rightarrow> results) \<Rightarrow> (results \<times> world, unit) js" where
  "set_results f = (\<lambda>(r, w). (Returned (), (f r, w)))"

definition try_finally :: "('s, 'a) js \<Rightarrow> ('s \<Rightarrow> 's) \<Rightarrow> ('s, 'a) js" where
  "try_finally m f = (\<lambda>s. case m s of (out, s') \<Rightarrow> (out, f s'))"

definition with_source :: "platform \<Rightarrow> feed \<Rightarrow> item \<Rightarrow> item" where
  "with_source plat fd it =
     it\<lparr>feedTitle := or_js (f_feedTitle fd) (Some (extractDomainName plat (f_feedUrl fd))),
        aiSummary := None,
        originalContent := Some (if content it \<noteq> [] then content it else title it)\<rparr>"

definition with_placeholders :: "item \<Rightarrow> item" where
  "with_placeholders it =
     it\<lparr>aiSummary := None,
        originalContent := Some (if content it \<noteq> [] then content it else title it)\<rparr>"

text \<open>Lines 75-108: the loop over the separated feeds, collecting \<open>itemsToProcess\<close>.\<close>

primrec feeds_loop ::
  "supabase \<Rightarrow> platform \<Rightarrow> bot_config \<Rightarrow> feed list \<Rightarrow> item list
     \<Rightarrow> (results \<times> world, item list) js" where
  "feeds_loop sb plat botConfig [] itemsToProcess = ret itemsToProcess"
| "feeds_loop sb plat botConfig (fd # rest) itemsToProcess =
     await (set_results (\<lambda>r. r\<lparr>itemsFetched := itemsFetched r + length (f_items fd)\<rparr>)) (\<lambda>_.
       if length (f_items fd) = 0 then feeds_loop sb plat botConfig rest itemsToProcess
       else
         await (in_world (filterUnprocessedItems sb (cfg_id botConfig) (Some (f_items fd))))
           (\<lambda>newItems.
         await (set_results (\<lambda>r. r\<lparr>itemsNew := itemsNew r + length newItems\<rparr>)) (\<lambda>_.
           if length newItems = 0 then feeds_loop sb plat botConfig rest itemsToProcess
           else feeds_loop sb plat botConfig rest
                  (itemsToProcess @ map (with_source plat fd) newItems))))"

text \<open>Lines 195-203: marking every created post's item as processed.\<close>

primrec mark_loop :: "supabase \<Rightarrow> bot_config \<Rightarrow> (post \<times> item) list \<Rightarrow> (world, unit) js" where
  "mark_loop sb botConfig [] = ret ()"
| "mark_loop sb botConfig (created # rest) =
     await (markItemAsProcessed sb (cfg_id botConfig) (cfg_username botConfig) (snd created)
              (Some (post_id (fst created)))) (\<lambda>_.
       mark_loop sb botConfig rest)"

text \<open>Lines 156-207: steps 4 to 6, from \<open>itemsToProcess\<close> to \<open>results.success = true\<close>.\<close>

definition publish_and_record ::
  "supabase \<Rightarrow> platform \<Rightarrow> bot_config \<Rightarrow> options \<Rightarrow> item list \<Rightarrow> (results \<times> world, unit) js" where
  "publish_and_record sb plat botConfig opts itemsToProcess =
     (let itemsWithSummaries = itemsToProcess in
      await (set_results (\<lambda>r. r\<lparr>itemsSummarized := 0\<rparr>)) (\<lambda>_.
      await (in_world (createPostsBatch sb plat botConfig itemsWithSummaries
                         (maxPostsPerRun opts) (dryRun opts))) (\<lambda>createdPosts.
      await (set_results (\<lambda>r. r\<lparr>postsCreated := length createdPosts\<rparr>)) (\<lambda>_.
      await (if dryRun opts then ret () else in_world (mark_loop sb botConfig createdPosts)) (\<lambda>_.
      set_results (\<lambda>r. r\<lparr>success := True\<rparr>))))))"

text \<open>Lines 61-118: the branch \<open>processFeedsSeparately\<close>.\<close>

definition run_separately ::
  "supabase \<Rightarrow> platform \<Rightarrow> bot_config \<Rightarrow> options \<Rightarrow> (results \<times> world, unit) js" where
  "run_separately sb plat botConfig opts =
     await (\<lambda>(r, w). (fetchItemsForBotSeparately plat botConfig (fetchWindowMinutes opts) (clock w),
                       (r, w))) (\<lambda>separatedFeeds.
       if length separatedFeeds = 0 then set_results (\<lambda>r. r\<lparr>success := True\<rparr>)
       else
         await (set_results (\<lambda>r. r\<lparr>feedsProcessed := length separatedFeeds\<rparr>)) (\<lambda>_.
         await (feeds_loop sb plat botConfig separatedFeeds []) (\<lambda>itemsToProcess.
           if length itemsToProcess = 0 then set_results (\<lambda>r. r\<lparr>success := True\<rparr>)
           else publish_and_record sb plat botConfig opts itemsToProcess)))"

text \<open>Lines 120-154: the combined branch.\<close>

definition run_combined ::
  "supabase \<Rightarrow> platform \<Rightarrow> bot_config \<Rightarrow> options \<Rightarrow> (results \<times> world, unit) js" where
  "run_combined sb plat botConfig opts =
     await (\<lambda>(r, w). (Returned (fetchItemsForBot plat (clock w) botConfig (fetchWindowMinutes opts)),
                       (r, w))) (\<lambda>items.
     await (set_results (\<lambda>r. r\<lparr>itemsFetched := length items\<rparr>)) (\<lambda>_.
       if length items = 0 then set_results (\<lambda>r. r\<lparr>success := True\<rparr>)
       else
         await (in_world (filterUnprocessedItems sb (cfg_id botConfig) (Some items))) (\<lambda>newItems.
         await (set_results (\<lambda>r. r\<lparr>itemsNew := length newItems\<rparr>)) (\<lambda>_.
           if length newItems = 0 then set_results (\<lambda>r. r\<lparr>success := True\<rparr>)
           else publish_and_record sb plat botConfig opts (map with_placeholders newItems)))))"

text \<open>Lines 50-208: the body of the \<open>try\<close> block.\<close>

definition run_try ::
  "supabase \<Rightarrow> platform \<Rightarrow> bot_config \<Rightarrow> options \<Rightarrow> (results \<times> world, unit) js" where
  "run_try sb plat botConfig opts =
     await (in_world (verifyBotProfile sb (cfg_user_id botConfig))) (\<lambda>profileExists.
       if \<not> profileExists
       then throw (''Bot profile not found: '' @ cfg_user_id botConfig @
                   ''. Run scripts/create-bot-profiles.sql first.'')
       else if processFeedsSeparately opts then run_separately sb plat botConfig opts
       else run_combined sb plat botConfig opts)"

text \<open>The object literal \<open>const results = {...}\<close> at the start of \<open>runBot\<close>.\<close>

definition initial_results :: "bot_config \<Rightarrow> results" where
  "initial_results botConfig =
     \<lparr>botId = cfg_id botConfig, botName = cfg_name botConfig, success = False,
      itemsFetched = 0, itemsNew = 0, itemsSummarized = 0, postsCreated = 0,
      feedsProcessed = 0, errors = [], duration = 0\<rparr>"

definition runBot ::
  "supabase \<Rightarrow> openai \<Rightarrow> platform \<Rightarrow> bot_config \<Rightarrow> options \<Rightarrow> (world, results) js" where
  "runBot sb ai plat botConfig opts = (\<lambda>w.
     let startTime = clock w in
     case try_finally
            (try_catch (run_try sb plat botConfig opts)
               (\<lambda>message. set_results (\<lambda>r. r\<lparr>errors := errors r @ [message],
                                             success := False\<rparr>)))
            (\<lambda>(r, w'). (r\<lparr>duration := clock w' - startTime\<rparr>, w'))
            (initial_results botConfig, w) of
       (Returned _, (r, w')) \<Rightarrow> (Returned r, w')
     | (Thrown e, (r, w')) \<Rightarrow> (Thrown e, w'))"




section \<open>Specification vocabulary\<close>

text \<open>
  The definitions of this section are not translations of code; they are the terms in
  which the theorems below speak about it.

  The two lookups of an item, whether the ledger holds a row of the bot with the item's
  GUID or link, what \<open>isItemProcessed\<close> answers (\<open>verdict\<close>: a lookup that answers with an
  error object counts as finding no row, a GUID lookup that throws ends the check with
  \<open>False\<close>), and the requests it sends (\<open>lookups\<close>).
\<close>

definition guid_query :: "string \<Rightarrow> item \<Rightarrow> request" where
  "guid_query b it = SelectByGuid b (text_of (guid it))"

definition link_query :: "string \<Rightarrow> item \<Rightarrow> request" where
  "link_query b it = SelectByLink b (text_of (link it))"

definition guid_hit :: "ledger_row list \<Rightarrow> string \<Rightarrow> item \<Rightarrow> bool" where
  "guid_hit rows b it = (\<exists>r \<in> set rows. bot_id r = b \<and> item_guid r = text_of (guid it))"

definition link_hit :: "ledger_row list \<Rightarrow> string \<Rightarrow> item \<Rightarrow> bool" where
  "link_hit rows b it = (\<exists>r \<in> set rows. bot_id r = b \<and> item_link r = text_of (link it))"

definition verdict :: "supabase \<Rightarrow> ledger_row list \<Rightarrow> string \<Rightarrow> item \<Rightarrow> bool" where
  "verdict sb rows b it =
     (case sb (guid_query b it) of
        Crashes m \<Rightarrow> False
      | Fails c \<Rightarrow> sb (link_query b it) = Healthy \<and> link_hit rows b it
      | Healthy \<Rightarrow> guid_hit rows b it \<or> (sb (link_query b it) = Healthy \<and> link_hit rows b it))"

definition lookups :: "supabase \<Rightarrow> ledger_row list \<Rightarrow> string \<Rightarrow> item \<Rightarrow> request list" where
  "lookups sb rows b it =
     (case sb (guid_query b it) of
        Crashes m \<Rightarrow> [guid_query b it]
      | Fails c \<Rightarrow> [guid_query b it, link_query b it]
      | Healthy \<Rightarrow> if guid_hit rows b it then [guid_query b it]
                   else [guid_query b it, link_query b it])"

text \<open>The ledger rows of a bot with a given GUID.\<close>

definition rows_for :: "string \<Rightarrow> string option \<Rightarrow> ledger_row list \<Rightarrow> ledger_row list" where
  "rows_for b g rows = filter (\<lambda>r. bot_id r = b \<and> Some (item_guid r) = g) rows"


text \<open>A completion call that throws or yields no text, an empty text or only white space.\<close>

definition failed_call :: "string option outcome \<Rightarrow> bool" where
  "failed_call r = (case r of Thrown e \<Rightarrow> True | Returned t \<Rightarrow> \<not> truthy (map_option trim t))"

text \<open>
  The insert that \<open>createPostsBatch\<close> sends for an item, the insert that
  \<open>markItemAsProcessed\<close> sends for it, and whether a request writes.
\<close>

definition post_request :: "platform \<Rightarrow> bot_config \<Rightarrow> item \<Rightarrow> request" where
  "post_request plat botConfig it =
     InsertPost (cfg_user_id botConfig) (link it)
       (if truthy (sourceName_of plat it)
        then source_label @ text_of (sourceName_of plat it) @ [CHR 0x0A, CHR 0x0A] @ displayContent it
        else displayContent it)"

definition mark_request :: "bot_config \<Rightarrow> item \<Rightarrow> request" where
  "mark_request botConfig it = InsertProcessed (cfg_id botConfig) (guid it) (link it)"

text \<open>
  The items that pass the deduplication filter; for the per-source branch, the list
  \<open>itemsToProcess\<close> that the loop over the feeds collects.
\<close>

definition new_items :: "supabase \<Rightarrow> ledger_row list \<Rightarrow> string \<Rightarrow> item list \<Rightarrow> item list" where
  "new_items sb rows b xs = filter (\<lambda>it. \<not> verdict sb rows b it) xs"

definition to_process ::
  "supabase \<Rightarrow> platform \<Rightarrow> ledger_row list \<Rightarrow> string \<Rightarrow> feed list \<Rightarrow> item list" where
  "to_process sb plat rows b feeds =
     concat (map (\<lambda>fd. map (with_source plat fd) (new_items sb rows b (f_items fd))) feeds)"

text \<open>The insert of the item's post is answered from the table.\<close>

definition published :: "supabase \<Rightarrow> platform \<Rightarrow> bot_config \<Rightarrow> item \<Rightarrow> bool" where
  "published sb plat botConfig it = (sb (post_request plat botConfig it) = Healthy)"

text \<open>A ledger row written for one of the created posts, with that post's id.\<close>

definition marks :: "bot_config \<Rightarrow> (post \<times> item) list \<Rightarrow> ledger_row \<Rightarrow> bool" where
  "marks botConfig created r =
     (bot_id r = cfg_id botConfig \<and>
      (\<exists>c \<in> set created. guid (snd c) = Some (item_guid r) \<and> link (snd c) = Some (item_link r) \<and>
          created_post_id r = Some (post_id (fst c))))"

definition is_write :: "request \<Rightarrow> bool" where
  "is_write q = (case q of InsertProcessed b g l \<Rightarrow> True | InsertPost u l c \<Rightarrow> True | _ \<Rightarrow> False)"

text \<open>
  The fetched items of a run, before deduplication, in the form in which they would reach
  the publisher: in per-source mode the items of all feeds in feed order, each with its
  source attached; in combined mode the merged, sorted list with the placeholders. The
  added properties do not touch the GUID and the link.
\<close>

definition candidates :: "platform \<Rightarrow> bot_config \<Rightarrow> options \<Rightarrow> int \<Rightarrow> item list outcome" where
  "candidates plat botConfig opts now =
     (if processFeedsSeparately opts
      then (case fetchItemsForBotSeparately plat botConfig (fetchWindowMinutes opts) now of
              Returned feeds \<Rightarrow>
                Returned (concat (map (\<lambda>fd. map (with_source plat fd) (f_items fd)) feeds))
            | Thrown e \<Rightarrow> Thrown e)
      else Returned (map with_placeholders
                       (fetchItemsForBot plat now botConfig (fetchWindowMinutes opts))))"

text \<open>
  What a run that gets past the profile check and the fetch does, given the list \<open>todo\<close> of
  its new items: the results it returns and the world it leaves, in terms of the posts it
  created (each paired with its item) and the ledger rows it added.
\<close>

definition run_record ::
  "supabase \<Rightarrow> platform \<Rightarrow> bot_config \<Rightarrow> options \<Rightarrow> item list \<Rightarrow> world \<Rightarrow> results \<Rightarrow> world
     \<Rightarrow> (post \<times> item) list \<Rightarrow> ledger_row list \<Rightarrow> bool" where
  "run_record sb plat botConfig opts todo w res w' created new =
     (botId res = cfg_id botConfig \<and> success res \<and> errors res = [] \<and>
      itemsNew res = length todo \<and>
      postsCreated res = length created \<and> profiles w' = profiles w \<and>
      ledger w' = ledger w @ new \<and> posts w' = posts w @ map fst created \<and>
      (\<forall>row \<in> set new. marks botConfig created row) \<and>
      map (\<lambda>c. rss_source_url (fst c)) created = map (\<lambda>c. link (snd c)) created \<and>
      (if dryRun opts
       then created = [] \<and> new = [] \<and>
            filter is_write (requests w') = filter is_write (requests w)
       else map snd created =
              filter (published sb plat botConfig) (slice0 (maxPostsPerRun opts) todo) \<and>
            filter is_write (requests w') =
              filter is_write (requests w) @
              map (post_request plat botConfig) (slice0 (maxPostsPerRun opts) todo) @
              map (\<lambda>c. mark_request botConfig (snd c)) created))"

definition run_effect ::
  "supabase \<Rightarrow> platform \<Rightarrow> bot_config \<Rightarrow> options \<Rightarrow> item list \<Rightarrow> world \<Rightarrow> results \<Rightarrow> world \<Rightarrow> bool" where
  "run_effect sb plat botConfig opts todo w res w' =
     (\<exists>created new. run_record sb plat botConfig opts todo w res w' created new)"



section \<open>Fixtures\<close>

text \<open>Concrete items, worlds, clients and platforms on which the theorems are instantiated.\<close>

definition blank_item :: item where
  "blank_item = \<lparr>guid = None, link = None, title = [], content = [], pubDate = None,
     pubDateObject = None, author = None, categories = [], feedUrl = [], feedTitle = None,
     aiSummary = None, originalContent = None\<rparr>"

definition story :: "string \<Rightarrow> string \<Rightarrow> item" where
  "story g l = blank_item\<lparr>guid := Some g, link := Some l, title := g, feedUrl := ''feed''\<rparr>"

definition empty_world :: world where
  "empty_world = \<lparr>ledger = [], posts = [], profiles = [], clock = 0, requests = []\<rparr>"

definition seen :: "string \<Rightarrow> string \<Rightarrow> string \<Rightarrow> ledger_row" where
  "seen b g l = \<lparr>rss_url = ''feed'', item_guid = g, item_link = l, item_title = g, bot_id = b,
     bot_username = b, created_post_id = None, processed_at = 0\<rparr>"

definition healthy :: supabase where
  "healthy = (\<lambda>q. Healthy)"

definition lookups_down :: supabase where
  "lookups_down = (\<lambda>q. case q of SelectByGuid b g \<Rightarrow> Fails ''503''
                              | SelectByLink b l \<Rightarrow> Fails ''503'' | _ \<Rightarrow> Healthy)"

definition guid_lookup_down :: supabase where
  "guid_lookup_down = (\<lambda>q. case q of SelectByGuid b g \<Rightarrow> Fails ''503'' | _ \<Rightarrow> Healthy)"



text \<open>
  A platform whose date parser knows three texts, one millisecond before the epoch, the
  epoch and one second after it; it fetches nothing.
\<close>

definition known_dates :: "string \<Rightarrow> int option" where
  "known_dates s = (if s = ''1969-12-31T23:59:59.999Z'' then Some (- 1)
                    else if s = ''1970-01-01T00:00:00.000Z'' then Some 0
                    else if s = ''1970-01-01T00:00:01.000Z'' then Some 1000
                    else None)"

definition offline_platform :: platform where
  "offline_platform = \<lparr>parseURL = (\<lambda>u. Thrown ''offline''), parse_date = known_dates,
     hostname = (\<lambda>u. None), fetchItemsForBotSeparately = (\<lambda>c m n. Returned [])\<rparr>"

definition unavailable :: openai where
  "unavailable = (\<lambda>model system user. Thrown ''timeout'')"

definition news_bot :: bot_config where
  "news_bot = \<lparr>cfg_id = ''news-bot'', cfg_name = ''News Bot'', cfg_username = ''news'',
     cfg_email = ''news@bato.bot'', cfg_user_id = ''bot_news'', cfg_avatar_url = ''avatar'',
     cfg_feeds = Some [''A'', ''B'', ''C''], cfg_summaryPrompt = None\<rparr>"

definition feed_of :: "string \<Rightarrow> string list \<Rightarrow> feed" where
  "feed_of url guids =
     \<lparr>f_feedUrl = url, f_feedTitle = Some url, f_items = map (\<lambda>g. story g g) guids\<rparr>"

text \<open>Three sources with five, five and one item.\<close>

definition three_feeds :: "feed list" where
  "three_feeds =
     [feed_of ''A'' [''a1'', ''a2'', ''a3'', ''a4'', ''a5''],
      feed_of ''B'' [''b1'', ''b2'', ''b3'', ''b4'', ''b5''],
      feed_of ''C'' [''c1'']]"

definition serving :: "feed list \<Rightarrow> platform" where
  "serving feeds = offline_platform\<lparr>fetchItemsForBotSeparately := (\<lambda>c m n. Returned feeds)\<rparr>"

definition start_world :: world where
  "start_world = empty_world\<lparr>profiles := [''bot_news'']\<rparr>"


definition seen_world :: world where
  "seen_world = start_world\<lparr>ledger := [seen ''news-bot'' ''a1'' ''a1'']\<rparr>"


definition two_stories :: feed where
  "two_stories = feed_of ''A'' [''a1'', ''a2'']"

definition second_story :: item where
  "second_story = with_source (serving [two_stories]) two_stories (story ''a2'' ''a2'')"

section \<open>The deduplicator in closed form\<close>

lemma find_hit: "(\<exists>y. find P xs = Some y) = (\<exists>x \<in> set xs. P x)"
  by (induction xs) auto

lemma guid_found:
  "(\<exists>y. find (\<lambda>r. bot_id r = b \<and> item_guid r = text_of (guid it)) rows = Some y) =
     guid_hit rows b it"
  by (simp add: guid_hit_def find_hit)

lemma link_found:
  "(\<exists>y. find (\<lambda>r. bot_id r = b \<and> item_link r = text_of (link it)) rows = Some y) =
     link_hit rows b it"
  by (simp add: link_hit_def find_hit)

lemma isItemProcessed_run:
  "isItemProcessed sb b it w =
     (Returned (verdict sb (ledger w) b it),
      w\<lparr>requests := requests w @ lookups sb (ledger w) b it\<rparr>)"
  by (cases "sb (SelectByGuid b (text_of (guid it)))";
      cases "sb (SelectByLink b (text_of (link it)))")
     (simp_all add: isItemProcessed_def try_catch_def await_def ret_def select_by_guid_def
        select_by_link_def send_def Let_def verdict_def lookups_def guid_found link_found
        guid_query_def link_query_def)

lemma filter_loop_run:
  "filter_loop sb b xs acc w =
     (Returned (acc @ filter (\<lambda>it. \<not> verdict sb (ledger w) b it) xs),
      w\<lparr>requests := requests w @ concat (map (lookups sb (ledger w) b) xs)\<rparr>)"
  by (induction xs arbitrary: acc w) (simp_all add: ret_def await_def isItemProcessed_run)

lemma filterUnprocessedItems_run:
  "filterUnprocessedItems sb b (Some xs) w =
     (Returned (filter (\<lambda>it. \<not> verdict sb (ledger w) b it) xs),
      w\<lparr>requests := requests w @ concat (map (lookups sb (ledger w) b) xs)\<rparr>)"
  by (simp add: filterUnprocessedItems_def filter_loop_run ret_def del: filter_loop.simps)

text \<open>
  C10. For every client, bot id, world and input list, \<open>filterUnprocessedItems\<close> returns a
  list that is a subsequence of its input: only input items, in the input's order, none
  added. For a \<open>null\<close> input and for an empty input it returns the empty list.
\<close>

theorem filterUnprocessedItems_subseq:
  "(\<exists>out. fst (filterUnprocessedItems sb b (Some xs) w) = Returned out \<and> subseq out xs) \<and>
   fst (filterUnprocessedItems sb b None w) = Returned [] \<and>
   fst (filterUnprocessedItems sb b (Some []) w) = Returned []"
  by (simp add: filterUnprocessedItems_run) (simp add: filterUnprocessedItems_def ret_def)

theorem filterUnprocessedItems_subseq_witness:
  "fst (filterUnprocessedItems healthy ''bot''
          (Some [story ''a'' ''la'', story ''b'' ''lb''])
          (empty_world\<lparr>ledger := [seen ''bot'' ''a'' ''la'']\<rparr>)) = Returned [story ''b'' ''lb''] \<and>
   subseq [story ''b'' ''lb''] [story ''a'' ''la'', story ''b'' ''lb'']"
proof -
  let ?w = "empty_world\<lparr>ledger := [seen ''bot'' ''a'' ''la'']\<rparr>"
  let ?xs = "[story ''a'' ''la'', story ''b'' ''lb'']"
  from filterUnprocessedItems_subseq [of healthy "''bot''" ?xs ?w]
  obtain out where o: "fst (filterUnprocessedItems healthy ''bot'' (Some ?xs) ?w) = Returned out"
    and s: "subseq out ?xs" by blast
  have "fst (filterUnprocessedItems healthy ''bot'' (Some ?xs) ?w) = Returned [story ''b'' ''lb'']"
    by (simp add: filterUnprocessedItems_run verdict_def healthy_def guid_query_def
        link_query_def guid_hit_def link_hit_def empty_world_def seen_def story_def
        blank_item_def text_of_def)
  with o s show ?thesis by simp
qed

section \<open>Marking an item as processed\<close>

lemma markItemAsProcessed_step:
  "\<exists>ok w'. markItemAsProcessed sb b u it pid w = (Returned ok, w') \<and>
     posts w' = posts w \<and> profiles w' = profiles w \<and> clock w' = clock w \<and>
     requests w' = requests w @ [InsertProcessed b (guid it) (link it)] \<and>
     (ledger w' = ledger w \<or>
      (\<exists>row. ledger w' = ledger w @ [row] \<and> ok \<and> sb (InsertProcessed b (guid it) (link it)) = Healthy \<and>
         bot_id row = b \<and> guid it = Some (item_guid row) \<and> link it = Some (item_link row) \<and>
         created_post_id row = pid \<and>
         \<not> unique_violation (ledger w) b (item_guid row) (item_link row)))"
  by (cases "sb (InsertProcessed b (guid it) (link it))"; cases "guid it"; cases "link it")
     (auto simp: markItemAsProcessed_def try_catch_def await_def ret_def insert_processed_def
        send_def Let_def)

lemma rows_for_step:
  assumes "ledger w' = ledger w \<or>
      (\<exists>row. ledger w' = ledger w @ [row] \<and> bot_id row = b \<and>
         \<not> unique_violation (ledger w) b (item_guid row) (item_link row))"
  shows "length (rows_for b g (ledger w')) \<le> max 1 (length (rows_for b g (ledger w)))"
proof -
  from assms consider "ledger w' = ledger w"
    | row where "ledger w' = ledger w @ [row]" "bot_id row = b"
        "\<not> unique_violation (ledger w) b (item_guid row) (item_link row)"
    by blast
  then show ?thesis
  proof cases
    case 1
    then show ?thesis by simp
  next
    case 2
    show ?thesis
    proof (cases "Some (item_guid row) = g")
      case True
      with 2 have "rows_for b g (ledger w) = []"
        by (auto simp: rows_for_def unique_violation_def filter_empty_conv)
      with 2 show ?thesis by (simp add: rows_for_def)
    next
      case False
      with 2 show ?thesis by (simp add: rows_for_def)
    qed
  qed
qed

text \<open>
  C4. \<open>markItemAsProcessed\<close> never throws: whatever the client does, it returns a boolean.
  Two calls in a row for a bot, the second for any item and in particular for one with the
  same GUID, leave at most one ledger row for that bot and the first item's GUID (or as many
  as there were before, if there were several). A uniqueness violation is reported as
  success: when the insert answers with code 23505, or when the table already holds a row
  of the bot with the item's GUID, the call returns \<open>true\<close> and the ledger is unchanged.
\<close>

theorem markItemAsProcessed_idempotent:
  "(\<exists>ok. fst (markItemAsProcessed sb b u it pid w) = Returned ok) \<and>
   length (rows_for b (guid it)
             (ledger (snd (markItemAsProcessed sb' b u' it' pid'
                         (snd (markItemAsProcessed sb b u it pid w))))))
     \<le> max 1 (length (rows_for b (guid it) (ledger w))) \<and>
   ((sb (InsertProcessed b (guid it) (link it)) = Fails ''23505'' \<or>
     (sb (InsertProcessed b (guid it) (link it)) = Healthy \<and>
      rows_for b (guid it) (ledger w) \<noteq> [] \<and> link it \<noteq> None))
    \<longrightarrow> markItemAsProcessed sb b u it pid w =
          (Returned True, w\<lparr>requests := requests w @ [InsertProcessed b (guid it) (link it)]\<rparr>))"
proof (intro conjI impI)
  show "\<exists>ok. fst (markItemAsProcessed sb b u it pid w) = Returned ok"
    using markItemAsProcessed_step [of sb b u it pid w] by auto
next
  let ?w1 = "snd (markItemAsProcessed sb b u it pid w)"
  let ?w2 = "snd (markItemAsProcessed sb' b u' it' pid' ?w1)"
  have 1: "length (rows_for b (guid it) (ledger ?w1)) \<le> max 1 (length (rows_for b (guid it) (ledger w)))"
    using markItemAsProcessed_step [of sb b u it pid w]
    by (intro rows_for_step) auto
  have 2: "length (rows_for b (guid it) (ledger ?w2)) \<le> max 1 (length (rows_for b (guid it) (ledger ?w1)))"
    using markItemAsProcessed_step [of sb' b u' it' pid' ?w1]
    by (intro rows_for_step) auto
  from 1 2 show "length (rows_for b (guid it) (ledger ?w2))
     \<le> max 1 (length (rows_for b (guid it) (ledger w)))" by linarith
next
  assume a: "sb (InsertProcessed b (guid it) (link it)) = Fails ''23505'' \<or>
     (sb (InsertProcessed b (guid it) (link it)) = Healthy \<and>
      rows_for b (guid it) (ledger w) \<noteq> [] \<and> link it \<noteq> None)"
  then show "markItemAsProcessed sb b u it pid w =
          (Returned True, w\<lparr>requests := requests w @ [InsertProcessed b (guid it) (link it)]\<rparr>)"
  proof
    assume "sb (InsertProcessed b (guid it) (link it)) = Fails ''23505''"
    then show ?thesis
      by (simp add: markItemAsProcessed_def try_catch_def await_def ret_def insert_processed_def
          send_def Let_def)
  next
    assume h: "sb (InsertProcessed b (guid it) (link it)) = Healthy \<and>
      rows_for b (guid it) (ledger w) \<noteq> [] \<and> link it \<noteq> None"
    then obtain r where r: "r \<in> set (ledger w)" "bot_id r = b" "Some (item_guid r) = guid it"
      by (auto simp: rows_for_def filter_empty_conv)
    from h obtain l where l: "link it = Some l" by auto
    from r have v: "unique_violation (ledger w) b (item_guid r) l"
      by (auto simp: unique_violation_def)
    from r(3) have g: "guid it = Some (item_guid r)" by simp
    from h v l g show ?thesis
      by (simp add: markItemAsProcessed_def try_catch_def await_def ret_def insert_processed_def
          send_def Let_def)
  qed
qed

theorem markItemAsProcessed_idempotent_witness:
  "length (rows_for ''bot'' (Some ''a'')
      (ledger (snd (markItemAsProcessed healthy ''bot'' ''news'' (story ''a'' ''elsewhere'') None
         (snd (markItemAsProcessed healthy ''bot'' ''news'' (story ''a'' ''la'') None
                 empty_world)))))) = 1 \<and>
   fst (markItemAsProcessed healthy ''bot'' ''news'' (story ''a'' ''elsewhere'') None
         (snd (markItemAsProcessed healthy ''bot'' ''news'' (story ''a'' ''la'') None
                 empty_world))) = Returned True"
proof -
  let ?w1 = "snd (markItemAsProcessed healthy ''bot'' ''news'' (story ''a'' ''la'') None empty_world)"
  have w1: "ledger ?w1 = [\<lparr>rss_url = ''feed'', item_guid = ''a'', item_link = ''la'',
      item_title = ''a'', bot_id = ''bot'', bot_username = ''news'', created_post_id = None,
      processed_at = 0\<rparr>]"
    by (simp add: markItemAsProcessed_def try_catch_def await_def ret_def insert_processed_def
        send_def Let_def healthy_def story_def blank_item_def empty_world_def
        unique_violation_def)
  have g: "guid (story ''a'' ''la'') = Some ''a''" "guid (story ''a'' ''elsewhere'') = Some ''a''"
    "link (story ''a'' ''elsewhere'') = Some ''elsewhere''"
    by (simp_all add: story_def blank_item_def)
  have h: "healthy q = Healthy" for q by (simp add: healthy_def)
  have n: "rows_for ''bot'' (Some ''a'') (ledger ?w1) \<noteq> []"
    by (simp add: w1 rows_for_def)
  note t = markItemAsProcessed_idempotent [where sb = healthy and b = "''bot''" and u = "''news''"
      and it = "story ''a'' ''elsewhere''" and pid = None and w = ?w1]
  from t h n g have second: "markItemAsProcessed healthy ''bot'' ''news''
      (story ''a'' ''elsewhere'') None ?w1 =
      (Returned True, ?w1\<lparr>requests := requests ?w1 @ [InsertProcessed ''bot'' (Some ''a'')
         (Some ''elsewhere'')]\<rparr>)"
    by simp
  then show ?thesis by (simp add: w1 rows_for_def)
qed

section \<open>Deduplication by GUID and by link\<close>

text \<open>
  C5. When the two lookups for an item answer without error, \<open>isItemProcessed\<close> returns
  \<open>true\<close> exactly when the ledger holds a row of the same bot with the item's GUID,
  whatever its link, or a row of the same bot with the item's link. The GUID query is sent
  first; the link query is sent only when the GUID query found no row. An item for which
  either row exists is not in the output of \<open>filterUnprocessedItems\<close>.
\<close>

theorem dedup_both_keys:
  assumes "sb (guid_query b it) = Healthy" and "sb (link_query b it) = Healthy"
  shows "fst (isItemProcessed sb b it w) =
           Returned (guid_hit (ledger w) b it \<or> link_hit (ledger w) b it) \<and>
         requests (snd (isItemProcessed sb b it w)) =
           requests w @ (if guid_hit (ledger w) b it then [guid_query b it]
                         else [guid_query b it, link_query b it]) \<and>
         (guid_hit (ledger w) b it \<or> link_hit (ledger w) b it \<longrightarrow>
            (\<exists>out. fst (filterUnprocessedItems sb b (Some xs) w) = Returned out \<and> it \<notin> set out))"
  using assms by (simp add: isItemProcessed_run filterUnprocessedItems_run verdict_def lookups_def)

theorem dedup_both_keys_witness:
  "fst (isItemProcessed healthy ''bot'' (story ''a'' ''elsewhere'')
          (empty_world\<lparr>ledger := [seen ''bot'' ''a'' ''la'']\<rparr>)) = Returned True \<and>
   requests (snd (isItemProcessed healthy ''bot'' (story ''a'' ''elsewhere'')
          (empty_world\<lparr>ledger := [seen ''bot'' ''a'' ''la'']\<rparr>))) = [SelectByGuid ''bot'' ''a''] \<and>
   fst (isItemProcessed healthy ''bot'' (story ''z'' ''la'')
          (empty_world\<lparr>ledger := [seen ''bot'' ''a'' ''la'']\<rparr>)) = Returned True \<and>
   requests (snd (isItemProcessed healthy ''bot'' (story ''z'' ''la'')
          (empty_world\<lparr>ledger := [seen ''bot'' ''a'' ''la'']\<rparr>))) =
     [SelectByGuid ''bot'' ''z'', SelectByLink ''bot'' ''la'']"
proof -
  let ?w = "empty_world\<lparr>ledger := [seen ''bot'' ''a'' ''la'']\<rparr>"
  have h: "healthy q = Healthy" for q by (simp add: healthy_def)
  have a: "guid_hit (ledger ?w) ''bot'' (story ''a'' ''elsewhere'')"
    by (simp add: guid_hit_def empty_world_def seen_def story_def blank_item_def text_of_def)
  have z: "\<not> guid_hit (ledger ?w) ''bot'' (story ''z'' ''la'')"
          "link_hit (ledger ?w) ''bot'' (story ''z'' ''la'')"
    by (simp_all add: guid_hit_def link_hit_def empty_world_def seen_def story_def
        blank_item_def text_of_def)
  have q: "guid_query ''bot'' (story ''a'' ''elsewhere'') = SelectByGuid ''bot'' ''a''"
          "guid_query ''bot'' (story ''z'' ''la'') = SelectByGuid ''bot'' ''z''"
          "link_query ''bot'' (story ''z'' ''la'') = SelectByLink ''bot'' ''la''"
    by (simp_all add: guid_query_def link_query_def story_def blank_item_def text_of_def)
  have e: "requests ?w = []" by (simp add: empty_world_def)
  from dedup_both_keys [of healthy "''bot''" "story ''a'' ''elsewhere''" ?w "[]", OF h h]
       dedup_both_keys [of healthy "''bot''" "story ''z'' ''la''" ?w "[]", OF h h]
  show ?thesis using a z q e by simp
qed

text \<open>
  C7, as stated, fails: the GUID query answers with an error object (it does not throw), the
  link query finds a row, and \<open>isItemProcessed\<close> returns \<open>true\<close>.
\<close>

theorem lookup_error_counterexample:
  "guid_lookup_down (guid_query ''bot'' (story ''z'' ''la'')) = Fails ''503'' \<and>
   fst (isItemProcessed guid_lookup_down ''bot'' (story ''z'' ''la'')
          (empty_world\<lparr>ledger := [seen ''bot'' ''a'' ''la'']\<rparr>)) = Returned True"
  by (simp add: isItemProcessed_run verdict_def guid_lookup_down_def guid_query_def
      link_query_def link_hit_def empty_world_def seen_def story_def blank_item_def text_of_def)

text \<open>
  C7, amended. A lookup that answers with an error counts as finding no row, and a lookup
  that throws ends the check with \<open>false\<close>: if the GUID query throws, or if the link query
  fails after a GUID query that failed or found no row, \<open>isItemProcessed\<close> returns
  \<open>false\<close> and \<open>filterUnprocessedItems\<close> retains the item. If only the GUID query answers
  with an error, the link query decides: the item is reported processed exactly when a row
  of the bot has its link.
\<close>

theorem lookup_error_not_processed:
  "(((\<exists>m. sb (guid_query b it) = Crashes m) \<or>
     (sb (link_query b it) \<noteq> Healthy \<and>
        (sb (guid_query b it) \<noteq> Healthy \<or> \<not> guid_hit (ledger w) b it)))
      \<longrightarrow> fst (isItemProcessed sb b it w) = Returned False \<and>
          (it \<in> set xs \<longrightarrow>
             (\<exists>out. fst (filterUnprocessedItems sb b (Some xs) w) = Returned out \<and> it \<in> set out))) \<and>
   ((\<exists>c. sb (guid_query b it) = Fails c) \<and> sb (link_query b it) = Healthy
      \<longrightarrow> fst (isItemProcessed sb b it w) = Returned (link_hit (ledger w) b it))"
  by (cases "sb (guid_query b it)"; cases "sb (link_query b it)")
     (auto simp: isItemProcessed_run filterUnprocessedItems_run verdict_def)

theorem lookup_error_not_processed_witness:
  "fst (isItemProcessed lookups_down ''bot'' (story ''a'' ''la'')
          (empty_world\<lparr>ledger := [seen ''bot'' ''a'' ''la'']\<rparr>)) = Returned False \<and>
   (\<exists>out. fst (filterUnprocessedItems lookups_down ''bot'' (Some [story ''a'' ''la''])
                 (empty_world\<lparr>ledger := [seen ''bot'' ''a'' ''la'']\<rparr>)) = Returned out \<and>
          story ''a'' ''la'' \<in> set out) \<and>
   fst (isItemProcessed guid_lookup_down ''bot'' (story ''z'' ''la'')
          (empty_world\<lparr>ledger := [seen ''bot'' ''a'' ''la'']\<rparr>)) = Returned True"
proof -
  let ?w = "empty_world\<lparr>ledger := [seen ''bot'' ''a'' ''la'']\<rparr>"
  have d: "lookups_down (guid_query ''bot'' (story ''a'' ''la'')) \<noteq> Healthy"
    "lookups_down (link_query ''bot'' (story ''a'' ''la'')) \<noteq> Healthy"
    by (simp_all add: lookups_down_def guid_query_def link_query_def)
  have g: "\<exists>c. guid_lookup_down (guid_query ''bot'' (story ''z'' ''la'')) = Fails c"
    "guid_lookup_down (link_query ''bot'' (story ''z'' ''la'')) = Healthy"
    by (simp_all add: guid_lookup_down_def guid_query_def link_query_def)
  have l: "link_hit (ledger ?w) ''bot'' (story ''z'' ''la'')"
    by (simp add: link_hit_def empty_world_def seen_def story_def blank_item_def text_of_def)
  from lookup_error_not_processed [where sb = lookups_down and b = "''bot''"
      and it = "story ''a'' ''la''" and w = ?w and xs = "[story ''a'' ''la'']"] d
  have one: "fst (isItemProcessed lookups_down ''bot'' (story ''a'' ''la'') ?w) = Returned False"
    "\<exists>out. fst (filterUnprocessedItems lookups_down ''bot'' (Some [story ''a'' ''la'']) ?w) =
             Returned out \<and> story ''a'' ''la'' \<in> set out"
    by simp_all
  from lookup_error_not_processed [where sb = guid_lookup_down and b = "''bot''"
      and it = "story ''z'' ''la''" and w = ?w and xs = "[]"] g l
  have two: "fst (isItemProcessed guid_lookup_down ''bot'' (story ''z'' ''la'') ?w) = Returned True"
    by simp
  from one two show ?thesis by simp
qed

section \<open>The date filter\<close>




section \<open>The fallback summary\<close>

text \<open>
  C6, as stated, fails for a long title: the fallback is cut at 280 characters and then
  contains neither the whole title nor the link.
\<close>

theorem fallback_truncated_counterexample:
  "generateSummary unavailable
     (blank_item\<lparr>title := replicate 281 (CHR ''a''), link := Some ''L''\<rparr>) None ''gpt-4o-mini''
     = Returned (replicate 280 (CHR ''a'')) \<and>
   \<not> sublist ''L'' (replicate 280 (CHR ''a''))"
proof
  show "generateSummary unavailable
     (blank_item\<lparr>title := replicate 281 (CHR ''a''), link := Some ''L''\<rparr>) None ''gpt-4o-mini''
     = Returned (replicate 280 (CHR ''a''))"
    by (simp add: generateSummary_def unavailable_def blank_item_def)
  show "\<not> sublist ''L'' (replicate 280 (CHR ''a''))"
  proof
    assume "sublist ''L'' (replicate 280 (CHR ''a''))"
    then have "set ''L'' \<subseteq> set (replicate 280 (CHR ''a''))" by (rule set_mono_sublist)
    then show False by simp
  qed
qed

text \<open>
  C6, amended. When the completion call throws, or carries no text, or only white space,
  \<open>generateSummary\<close> returns the first 280 characters of the title, \<open>" - "\<close> and the link:
  a prefix of that string of length at most 280. It is the whole string, and so contains
  the title and the link, whenever the title, the separator and the link together have at
  most 280 characters.
\<close>

theorem generateSummary_fallback:
  assumes "failed_call (ai model (or_default customPrompt default_system_prompt) (articleContent it))"
  shows "generateSummary ai it customPrompt model =
           Returned (take 280 (title it @ '' - '' @ text_of (link it))) \<and>
         (\<exists>s. generateSummary ai it customPrompt model = Returned s \<and> length s \<le> 280 \<and>
              prefix s (title it @ '' - '' @ text_of (link it))) \<and>
         (length (title it) + 3 + length (text_of (link it)) \<le> 280 \<longrightarrow>
            generateSummary ai it customPrompt model =
              Returned (title it @ '' - '' @ text_of (link it)))"
proof -
  define fallback where "fallback = title it @ '' - '' @ text_of (link it)"
  have run: "generateSummary ai it customPrompt model = Returned (take 280 fallback)"
    using assms
    by (auto simp: generateSummary_def failed_call_def Let_def fallback_def
        split: outcome.splits)
  have len: "length (take 280 fallback) \<le> 280" by simp
  have pre: "prefix (take 280 fallback) fallback" by (rule take_is_prefix)
  have whole: "length (title it) + 3 + length (text_of (link it)) \<le> 280
                 \<Longrightarrow> take 280 fallback = fallback"
    by (simp add: fallback_def)
  show ?thesis
  proof (intro conjI impI)
    show "generateSummary ai it customPrompt model =
            Returned (take 280 (title it @ '' - '' @ text_of (link it)))"
      using run by (simp only: fallback_def)
    show "\<exists>s. generateSummary ai it customPrompt model = Returned s \<and> length s \<le> 280 \<and>
              prefix s (title it @ '' - '' @ text_of (link it))"
      using run len pre by (simp only: fallback_def) blast
    show "generateSummary ai it customPrompt model =
            Returned (title it @ '' - '' @ text_of (link it))"
      if "length (title it) + 3 + length (text_of (link it)) \<le> 280"
      using run whole [OF that] by (simp only: fallback_def)
  qed
qed

theorem generateSummary_fallback_witness:
  "generateSummary unavailable (story ''a'' ''la'') None ''gpt-4o-mini'' = Returned ''a - la''"
proof -
  have f: "failed_call (unavailable ''gpt-4o-mini'' (or_default None default_system_prompt)
             (articleContent (story ''a'' ''la'')))"
    by (simp add: failed_call_def unavailable_def)
  from generateSummary_fallback [where ai = unavailable and model = "''gpt-4o-mini''"
         and customPrompt = None and it = "story ''a'' ''la''", OF f]
  show ?thesis
    by (simp add: story_def blank_item_def text_of_def)
qed

section \<open>The post creator in closed form\<close>

lemma verifyBotProfile_run:
  "verifyBotProfile sb uid w =
     (Returned (sb (SelectProfile uid) = Healthy \<and> uid \<in> set (profiles w)),
      w\<lparr>requests := requests w @ [SelectProfile uid]\<rparr>)"
  by (cases "sb (SelectProfile uid)")
     (simp_all add: verifyBotProfile_def select_profile_def send_def try_catch_def await_def
        ret_def Let_def)

lemma createPost_run:
  "\<exists>p w'. createPost sb botConfig (displayContent it) (link it) (sourceName_of plat it)
             (Some (original_of it)) (aiSummary it) w = (Returned p, w') \<and>
     ledger w' = ledger w \<and> profiles w' = profiles w \<and> clock w' = clock w \<and>
     requests w' = requests w @ [post_request plat botConfig it] \<and>
     (if sb (post_request plat botConfig it) = Healthy
      then (\<exists>row. p = Some row \<and> posts w' = posts w @ [row] \<and> rss_source_url row = link it \<and>
                  post_id row = length (posts w))
      else p = None \<and> posts w' = posts w)"
  by (cases "sb (post_request plat botConfig it)")
     (simp_all add: createPost_def insert_post_def send_def try_catch_def await_def
        ret_def throw_def Let_def post_request_def)


lemma post_loop_run:
  "\<exists>new w'. post_loop sb plat botConfig xs acc w = (Returned (acc @ new), w') \<and>
     map snd new = filter (\<lambda>it. sb (post_request plat botConfig it) = Healthy) xs \<and>
     map (\<lambda>c. rss_source_url (fst c)) new = map (\<lambda>c. link (snd c)) new \<and>
     posts w' = posts w @ map fst new \<and>
     ledger w' = ledger w \<and> profiles w' = profiles w \<and>
     requests w' = requests w @ map (post_request plat botConfig) xs"
proof (induction xs arbitrary: acc w)
  case Nil
  then show ?case by (simp add: ret_def)
next
  case (Cons it rest)
  from createPost_run [of sb botConfig it plat w]
  obtain p w1 where c: "createPost sb botConfig (displayContent it) (link it) (sourceName_of plat it)
             (Some (original_of it)) (aiSummary it) w = (Returned p, w1)"
     and f: "ledger w1 = ledger w" "profiles w1 = profiles w"
        "requests w1 = requests w @ [post_request plat botConfig it]"
     and h: "if sb (post_request plat botConfig it) = Healthy
      then (\<exists>row. p = Some row \<and> posts w1 = posts w @ [row] \<and> rss_source_url row = link it \<and>
                  post_id row = length (posts w))
      else p = None \<and> posts w1 = posts w"
    by blast
  define acc1 where "acc1 = (case p of None \<Rightarrow> acc | Some p' \<Rightarrow> acc @ [(p', it)])"
  define w2 where "w2 = (if rest \<noteq> [] then w1\<lparr>clock := clock w1 + 500\<rparr> else w1)"
  have step: "post_loop sb plat botConfig (it # rest) acc w = post_loop sb plat botConfig rest acc1 w2"
    using c by (simp add: await_def try_catch_def ret_def sleep_def acc1_def w2_def Let_def)
  from Cons.IH [of acc1 w2]
  obtain new w' where r: "post_loop sb plat botConfig rest acc1 w2 = (Returned (acc1 @ new), w')"
     and m: "map snd new = filter (\<lambda>it. sb (post_request plat botConfig it) = Healthy) rest"
        "map (\<lambda>c. rss_source_url (fst c)) new = map (\<lambda>c. link (snd c)) new"
     and ps: "posts w' = posts w2 @ map fst new"
     and l: "ledger w' = ledger w2" "profiles w' = profiles w2"
     and rq: "requests w' = requests w2 @ map (post_request plat botConfig) rest"
    by blast
  have w2f: "posts w2 = posts w1" "ledger w2 = ledger w1" "profiles w2 = profiles w1"
     "requests w2 = requests w1"
    by (simp_all add: w2_def)
  show ?case
  proof (cases "sb (post_request plat botConfig it) = Healthy")
    case True
    with h obtain row where row: "p = Some row" "posts w1 = posts w @ [row]"
      "rss_source_url row = link it" by auto
    then have a: "acc1 @ new = acc @ ((row, it) # new)" by (simp add: acc1_def)
    show ?thesis
      using step r m ps l rq f w2f row True a by simp
  next
    case False
    with h have "p = None" "posts w1 = posts w" by auto
    then show ?thesis
      using step r m ps l rq f w2f False by (simp add: acc1_def)
  qed
qed

lemma createPostsBatch_run:
  "\<exists>created w'. createPostsBatch sb plat botConfig xs maxPosts dry w = (Returned created, w') \<and>
     ledger w' = ledger w \<and> profiles w' = profiles w \<and>
     (if dry then created = [] \<and> w' = w
      else map snd created = filter (published sb plat botConfig) (slice0 maxPosts xs) \<and>
           map (\<lambda>c. rss_source_url (fst c)) created = map (\<lambda>c. link (snd c)) created \<and>
           posts w' = posts w @ map fst created \<and>
           requests w' = requests w @ map (post_request plat botConfig) (slice0 maxPosts xs))"
proof (cases "xs = [] \<or> dry")
  case True
  then show ?thesis
    by (auto simp: createPostsBatch_def ret_def slice0_def)
next
  case False
  from post_loop_run [of sb plat botConfig "slice0 maxPosts xs" "[]" w] False
  show ?thesis
    by (auto simp: createPostsBatch_def Let_def published_def [abs_def])
qed

lemma mark_loop_run:
  "\<exists>w' new. mark_loop sb botConfig created w = (Returned (), w') \<and>
     posts w' = posts w \<and> profiles w' = profiles w \<and>
     requests w' = requests w @ map (\<lambda>c. mark_request botConfig (snd c)) created \<and>
     ledger w' = ledger w @ new \<and> (\<forall>r \<in> set new. marks botConfig created r)"
proof (induction created arbitrary: w)
  case Nil
  then show ?case by (simp add: ret_def)
next
  case (Cons c rest)
  from markItemAsProcessed_step [of sb "cfg_id botConfig" "cfg_username botConfig" "snd c"
      "Some (post_id (fst c))" w]
  obtain ok w1 where m: "markItemAsProcessed sb (cfg_id botConfig) (cfg_username botConfig) (snd c)
        (Some (post_id (fst c))) w = (Returned ok, w1)"
    and f: "posts w1 = posts w" "profiles w1 = profiles w"
       "requests w1 = requests w @ [mark_request botConfig (snd c)]"
    and l: "ledger w1 = ledger w \<or>
      (\<exists>row. ledger w1 = ledger w @ [row] \<and> bot_id row = cfg_id botConfig \<and>
         guid (snd c) = Some (item_guid row) \<and> link (snd c) = Some (item_link row) \<and>
         created_post_id row = Some (post_id (fst c)))"
    unfolding mark_request_def by blast
  from l obtain new1 where n1: "ledger w1 = ledger w @ new1"
      "\<forall>r \<in> set new1. marks botConfig (c # rest) r"
  proof
    assume "ledger w1 = ledger w"
    then have "ledger w1 = ledger w @ []" "\<forall>r \<in> set []. marks botConfig (c # rest) r" by simp_all
    then show ?thesis by (rule that)
  next
    assume "\<exists>row. ledger w1 = ledger w @ [row] \<and> bot_id row = cfg_id botConfig \<and>
         guid (snd c) = Some (item_guid row) \<and> link (snd c) = Some (item_link row) \<and>
         created_post_id row = Some (post_id (fst c))"
    then obtain row where "ledger w1 = ledger w @ [row]" "marks botConfig (c # rest) row"
      by (auto simp: marks_def)
    then have "ledger w1 = ledger w @ [row]" "\<forall>r \<in> set [row]. marks botConfig (c # rest) r"
      by simp_all
    then show ?thesis by (rule that)
  qed
  from Cons.IH [of w1]
  obtain w' new where r: "mark_loop sb botConfig rest w1 = (Returned (), w')"
    and g: "posts w' = posts w1" "profiles w' = profiles w1"
       "requests w' = requests w1 @ map (\<lambda>c. mark_request botConfig (snd c)) rest"
       "ledger w' = ledger w1 @ new"
    and n: "\<forall>r \<in> set new. marks botConfig rest r"
    by blast
  from n have n': "\<forall>r \<in> set new. marks botConfig (c # rest) r"
    by (auto simp: marks_def)
  have "mark_loop sb botConfig (c # rest) w = (Returned (), w')"
    using m r by (simp add: await_def)
  moreover have "ledger w' = ledger w @ (new1 @ new)" using g n1 by simp
  moreover have "\<forall>r \<in> set (new1 @ new). marks botConfig (c # rest) r" using n1 n' by auto
  ultimately show ?case using f g by (intro exI [of _ w'] exI [of _ "new1 @ new"]) simp
qed

section \<open>The bot runner in closed form\<close>

lemma feeds_loop_run:
  "feeds_loop sb plat botConfig feeds acc (r, w) =
     (Returned (acc @ to_process sb plat (ledger w) (cfg_id botConfig) feeds),
      (r\<lparr>itemsFetched := itemsFetched r + sum_list (map (\<lambda>fd. length (f_items fd)) feeds),
         itemsNew := itemsNew r + length (to_process sb plat (ledger w) (cfg_id botConfig) feeds)\<rparr>,
       w\<lparr>requests := requests w @
           concat (map (\<lambda>fd. concat (map (lookups sb (ledger w) (cfg_id botConfig)) (f_items fd)))
                     feeds)\<rparr>))"
proof (induction feeds arbitrary: acc r w)
  case Nil
  then show ?case by (simp add: ret_def to_process_def)
next
  case (Cons fd rest)
  show ?case
    by (simp add: Cons.IH await_def set_results_def in_world_def filterUnprocessedItems_run
        to_process_def new_items_def add.assoc)
qed

lemma publish_and_record_run:
  "\<exists>created new w'. publish_and_record sb plat botConfig opts xs (r, w) =
      (Returned (), (r\<lparr>itemsSummarized := 0, postsCreated := length created, success := True\<rparr>, w')) \<and>
     profiles w' = profiles w \<and> ledger w' = ledger w @ new \<and>
     posts w' = posts w @ map fst created \<and>
     (\<forall>row \<in> set new. marks botConfig created row) \<and>
     map (\<lambda>c. rss_source_url (fst c)) created = map (\<lambda>c. link (snd c)) created \<and>
     (if dryRun opts then created = [] \<and> new = [] \<and> w' = w
      else map snd created = filter (published sb plat botConfig) (slice0 (maxPostsPerRun opts) xs) \<and>
           requests w' = requests w @
             map (post_request plat botConfig) (slice0 (maxPostsPerRun opts) xs) @
             map (\<lambda>c. mark_request botConfig (snd c)) created)"
proof -
  from createPostsBatch_run [of sb plat botConfig xs "maxPostsPerRun opts" "dryRun opts" w]
  obtain created w1 where
    b: "createPostsBatch sb plat botConfig xs (maxPostsPerRun opts) (dryRun opts) w =
          (Returned created, w1)"
    and f: "ledger w1 = ledger w" "profiles w1 = profiles w"
    and c: "if dryRun opts then created = [] \<and> w1 = w
      else map snd created = filter (published sb plat botConfig) (slice0 (maxPostsPerRun opts) xs) \<and>
           map (\<lambda>c. rss_source_url (fst c)) created = map (\<lambda>c. link (snd c)) created \<and>
           posts w1 = posts w @ map fst created \<and>
           requests w1 = requests w @
             map (post_request plat botConfig) (slice0 (maxPostsPerRun opts) xs)"
    by blast
  show ?thesis
  proof (cases "dryRun opts")
    case True
    with c have "created = []" "w1 = w" by simp_all
    with b True have "publish_and_record sb plat botConfig opts xs (r, w) =
      (Returned (), (r\<lparr>itemsSummarized := 0, postsCreated := length created, success := True\<rparr>, w))"
      by (simp add: publish_and_record_def await_def set_results_def in_world_def ret_def)
    with True \<open>created = []\<close> show ?thesis
      by (intro exI [of _ created] exI [of _ "[]"] exI [of _ w]) simp
  next
    case False
    from mark_loop_run [of sb botConfig created w1]
    obtain w' new where m: "mark_loop sb botConfig created w1 = (Returned (), w')"
      and g: "posts w' = posts w1" "profiles w' = profiles w1"
        "requests w' = requests w1 @ map (\<lambda>c. mark_request botConfig (snd c)) created"
        "ledger w' = ledger w1 @ new"
      and n: "\<forall>r \<in> set new. marks botConfig created r"
      by blast
    from b m False have "publish_and_record sb plat botConfig opts xs (r, w) =
      (Returned (), (r\<lparr>itemsSummarized := 0, postsCreated := length created, success := True\<rparr>, w'))"
      by (simp add: publish_and_record_def await_def set_results_def in_world_def ret_def)
    with False c f g n show ?thesis
      by (intro exI [of _ created] exI [of _ new] exI [of _ w']) simp
  qed
qed

lemma keys_with_source [simp]:
  "guid_query b (with_source plat fd it) = guid_query b it"
  "link_query b (with_source plat fd it) = link_query b it"
  "guid_hit rows b (with_source plat fd it) = guid_hit rows b it"
  "link_hit rows b (with_source plat fd it) = link_hit rows b it"
  by (simp_all add: guid_query_def link_query_def guid_hit_def link_hit_def with_source_def)

lemma keys_with_placeholders [simp]:
  "guid_query b (with_placeholders it) = guid_query b it"
  "link_query b (with_placeholders it) = link_query b it"
  "guid_hit rows b (with_placeholders it) = guid_hit rows b it"
  "link_hit rows b (with_placeholders it) = link_hit rows b it"
  by (simp_all add: guid_query_def link_query_def guid_hit_def link_hit_def
      with_placeholders_def)

lemma verdict_with_source [simp]:
  "verdict sb rows b (with_source plat fd it) = verdict sb rows b it"
  by (simp add: verdict_def split: fault.splits)

lemma verdict_with_placeholders [simp]:
  "verdict sb rows b (with_placeholders it) = verdict sb rows b it"
  by (simp add: verdict_def split: fault.splits)

lemma to_process_candidates:
  "to_process sb plat rows b feeds =
     new_items sb rows b (concat (map (\<lambda>fd. map (with_source plat fd) (f_items fd)) feeds))"
  by (induction feeds) (simp_all add: to_process_def new_items_def filter_map comp_def)

lemma lookups_not_writes [simp]: "filter is_write (lookups sb rows b it) = []"
  by (simp add: lookups_def guid_query_def link_query_def is_write_def split: fault.splits)

lemma lookups_concat_not_writes [simp]:
  "filter is_write (concat (map (lookups sb rows b) xs)) = []"
  by (induction xs) simp_all

lemma lookups_feeds_not_writes [simp]:
  "filter is_write (concat (map (\<lambda>fd. concat (map (lookups sb rows b) (f_items fd))) feeds)) = []"
  by (induction feeds) simp_all

lemma post_requests_writes [simp]:
  "filter is_write (map (post_request plat botConfig) xs) = map (post_request plat botConfig) xs"
  by (induction xs) (simp_all add: post_request_def is_write_def)

lemma mark_requests_writes [simp]:
  "filter is_write (map (\<lambda>c. mark_request botConfig (snd c)) cs) =
     map (\<lambda>c. mark_request botConfig (snd c)) cs"
  by (induction cs) (simp_all add: mark_request_def is_write_def)

lemma slice0_Nil [simp]: "slice0 n [] = []"
  by (simp add: slice0_def)


lemma finish_run:
  assumes r: "errors r = []" "itemsNew r = length todo" "postsCreated r = 0"
      "botId r = cfg_id botConfig"
    and w2: "ledger w2 = ledger w" "posts w2 = posts w" "profiles w2 = profiles w"
      "filter is_write (requests w2) = filter is_write (requests w)"
  shows "\<exists>r' w'. (if length todo = 0 then set_results (\<lambda>r. r\<lparr>success := True\<rparr>)
                   else publish_and_record sb plat botConfig opts todo) (r, w2) =
                    (Returned (), (r', w')) \<and>
                 run_effect sb plat botConfig opts todo w r' w'"
proof (cases "todo = []")
  case True
  have "run_effect sb plat botConfig opts [] w (r\<lparr>success := True\<rparr>) w2"
    unfolding run_effect_def run_record_def using r w2 True
    by (intro exI [of _ "[]"]) simp
  with True show ?thesis by (simp add: set_results_def)
next
  case False
  from publish_and_record_run [of sb plat botConfig opts todo r w2]
  obtain created new w' where
    p: "publish_and_record sb plat botConfig opts todo (r, w2) =
      (Returned (), (r\<lparr>itemsSummarized := 0, postsCreated := length created, success := True\<rparr>, w'))"
    and f: "profiles w' = profiles w2" "ledger w' = ledger w2 @ new"
      "posts w' = posts w2 @ map fst created"
      "\<forall>row \<in> set new. marks botConfig created row"
      "map (\<lambda>c. rss_source_url (fst c)) created = map (\<lambda>c. link (snd c)) created"
    and c: "if dryRun opts then created = [] \<and> new = [] \<and> w' = w2
      else map snd created = filter (published sb plat botConfig) (slice0 (maxPostsPerRun opts) todo) \<and>
           requests w' = requests w2 @
             map (post_request plat botConfig) (slice0 (maxPostsPerRun opts) todo) @
             map (\<lambda>c. mark_request botConfig (snd c)) created"
    by blast
  have "run_effect sb plat botConfig opts todo w
          (r\<lparr>itemsSummarized := 0, postsCreated := length created, success := True\<rparr>) w'"
    unfolding run_effect_def run_record_def using r w2 f c
    by (intro exI [of _ created] exI [of _ new]) (auto split: if_splits)
  with p False show ?thesis by simp
qed

lemma run_separately_run:
  assumes "fetchItemsForBotSeparately plat botConfig (fetchWindowMinutes opts) (clock w2) =
             Returned feeds"
    and w2: "ledger w2 = ledger w" "posts w2 = posts w" "profiles w2 = profiles w"
      "filter is_write (requests w2) = filter is_write (requests w)"
  shows "\<exists>r' w'. run_separately sb plat botConfig opts (initial_results botConfig, w2) =
                    (Returned (), (r', w')) \<and>
                 run_effect sb plat botConfig opts
                   (to_process sb plat (ledger w) (cfg_id botConfig) feeds) w r' w'"
proof (cases "feeds = []")
  case True
  have "run_effect sb plat botConfig opts [] w ((initial_results botConfig)\<lparr>success := True\<rparr>) w2"
    unfolding run_effect_def run_record_def using w2
    by (intro exI [of _ "[]"]) (simp add: initial_results_def)
  with True assms(1) show ?thesis
    by (simp add: run_separately_def await_def set_results_def to_process_def)
next
  case False
  define todo where "todo = to_process sb plat (ledger w) (cfg_id botConfig) feeds"
  define r2 where "r2 = (initial_results botConfig)\<lparr>feedsProcessed := length feeds,
      itemsFetched := sum_list (map (\<lambda>fd. length (f_items fd)) feeds),
      itemsNew := length todo\<rparr>"
  define w3 where "w3 = w2\<lparr>requests := requests w2 @
           concat (map (\<lambda>fd. concat (map (lookups sb (ledger w2) (cfg_id botConfig)) (f_items fd)))
                     feeds)\<rparr>"
  have step: "run_separately sb plat botConfig opts (initial_results botConfig, w2) =
      (if length todo = 0 then set_results (\<lambda>r. r\<lparr>success := True\<rparr>)
       else publish_and_record sb plat botConfig opts todo) (r2, w3)"
    using False assms(1) w2(1)
    by (simp add: run_separately_def await_def set_results_def feeds_loop_run todo_def r2_def
        w3_def initial_results_def)
  have "\<exists>r' w'. (if length todo = 0 then set_results (\<lambda>r. r\<lparr>success := True\<rparr>)
                   else publish_and_record sb plat botConfig opts todo) (r2, w3) =
                    (Returned (), (r', w')) \<and>
                 run_effect sb plat botConfig opts todo w r' w'"
    by (rule finish_run) (simp_all add: r2_def w3_def initial_results_def w2)
  with step show ?thesis by (simp add: todo_def)
qed

lemma run_combined_run:
  assumes w2: "ledger w2 = ledger w" "posts w2 = posts w" "profiles w2 = profiles w"
      "filter is_write (requests w2) = filter is_write (requests w)"
  shows "\<exists>r' w'. run_combined sb plat botConfig opts (initial_results botConfig, w2) =
                    (Returned (), (r', w')) \<and>
                 run_effect sb plat botConfig opts
                   (new_items sb (ledger w) (cfg_id botConfig)
                      (map with_placeholders
                         (fetchItemsForBot plat (clock w2) botConfig (fetchWindowMinutes opts))))
                   w r' w'"
proof -
  define items where "items = fetchItemsForBot plat (clock w2) botConfig (fetchWindowMinutes opts)"
  define todo where "todo = new_items sb (ledger w) (cfg_id botConfig) (map with_placeholders items)"
  have todo: "todo = map with_placeholders (new_items sb (ledger w) (cfg_id botConfig) items)"
    by (simp add: todo_def new_items_def filter_map comp_def)
  define r2 where "r2 = (initial_results botConfig)\<lparr>itemsFetched := length items,
      itemsNew := length todo\<rparr>"
  define w3 where "w3 = w2\<lparr>requests := requests w2 @
           concat (map (lookups sb (ledger w2) (cfg_id botConfig)) items)\<rparr>"
  show ?thesis
  proof (cases "items = []")
    case True
    have "run_effect sb plat botConfig opts [] w
            ((initial_results botConfig)\<lparr>itemsFetched := 0, success := True\<rparr>) w2"
      unfolding run_effect_def run_record_def using w2
      by (intro exI [of _ "[]"]) (simp add: initial_results_def)
    with True show ?thesis
      by (simp add: run_combined_def await_def set_results_def items_def [symmetric]
          new_items_def)
  next
    case False
    have step: "run_combined sb plat botConfig opts (initial_results botConfig, w2) =
      (if length todo = 0 then set_results (\<lambda>r. r\<lparr>success := True\<rparr>)
       else publish_and_record sb plat botConfig opts todo) (r2, w3)"
      using False w2(1)
      by (simp add: run_combined_def await_def set_results_def in_world_def
          filterUnprocessedItems_run items_def [symmetric] todo new_items_def r2_def w3_def
          initial_results_def)
    have "\<exists>r' w'. (if length todo = 0 then set_results (\<lambda>r. r\<lparr>success := True\<rparr>)
                   else publish_and_record sb plat botConfig opts todo) (r2, w3) =
                    (Returned (), (r', w')) \<and>
                 run_effect sb plat botConfig opts todo w r' w'"
      by (rule finish_run) (simp_all add: r2_def w3_def initial_results_def w2)
    with step show ?thesis by (simp add: todo_def items_def)
  qed
qed

lemma run_effect_duration [simp]:
  "run_effect sb plat botConfig opts todo w (r\<lparr>duration := d\<rparr>) w' =
     run_effect sb plat botConfig opts todo w r w'"
  by (simp add: run_effect_def run_record_def)



lemma run_try_run:
  assumes ok: "sb (SelectProfile (cfg_user_id botConfig)) = Healthy"
      "cfg_user_id botConfig \<in> set (profiles w)"
    and cs: "candidates plat botConfig opts (clock w) = Returned cs"
  shows "\<exists>r' w'. run_try sb plat botConfig opts (initial_results botConfig, w) =
                    (Returned (), (r', w')) \<and>
                 run_effect sb plat botConfig opts
                   (new_items sb (ledger w) (cfg_id botConfig) cs) w r' w'"
proof -
  define w2 where "w2 = w\<lparr>requests := requests w @ [SelectProfile (cfg_user_id botConfig)]\<rparr>"
  have w2: "ledger w2 = ledger w" "posts w2 = posts w" "profiles w2 = profiles w"
      "filter is_write (requests w2) = filter is_write (requests w)" "clock w2 = clock w"
    by (simp_all add: w2_def is_write_def)
  show ?thesis
  proof (cases "processFeedsSeparately opts")
    case True
    with cs obtain feeds where
      f: "fetchItemsForBotSeparately plat botConfig (fetchWindowMinutes opts) (clock w) =
            Returned feeds"
      and c: "cs = concat (map (\<lambda>fd. map (with_source plat fd) (f_items fd)) feeds)"
      by (auto simp: candidates_def split: outcome.splits)
    from f w2 have f2: "fetchItemsForBotSeparately plat botConfig (fetchWindowMinutes opts)
        (clock w2) = Returned feeds" by simp
    from run_separately_run [OF f2 w2(1-4), of sb]
    show ?thesis using ok True
      by (simp add: run_try_def await_def in_world_def verifyBotProfile_run w2_def [symmetric]
          to_process_candidates c)
  next
    case False
    with cs have c: "cs = map with_placeholders
        (fetchItemsForBot plat (clock w2) botConfig (fetchWindowMinutes opts))"
      by (simp add: candidates_def w2)
    from run_combined_run [OF w2(1-4), of sb plat botConfig opts]
    show ?thesis using ok False
      by (simp add: run_try_def await_def in_world_def verifyBotProfile_run w2_def [symmetric] c)
  qed
qed

lemma runBot_unfold:
  "runBot sb ai plat botConfig opts w =
     (case run_try sb plat botConfig opts (initial_results botConfig, w) of
        (Returned u, (r, w')) \<Rightarrow> (Returned (r\<lparr>duration := clock w' - clock w\<rparr>), w')
      | (Thrown message, (r, w')) \<Rightarrow>
          (Returned (r\<lparr>errors := errors r @ [message], success := False,
                       duration := clock w' - clock w\<rparr>), w'))"
  by (simp add: runBot_def try_finally_def try_catch_def set_results_def Let_def
      split: prod.splits outcome.splits)

lemma runBot_run:
  assumes ok: "sb (SelectProfile (cfg_user_id botConfig)) = Healthy"
      "cfg_user_id botConfig \<in> set (profiles w)"
    and cs: "candidates plat botConfig opts (clock w) = Returned cs"
  shows "\<exists>res w'. runBot sb ai plat botConfig opts w = (Returned res, w') \<and>
           duration res = clock w' - clock w \<and>
           fst (run_try sb plat botConfig opts (initial_results botConfig, w)) = Returned () \<and>
           run_effect sb plat botConfig opts
             (new_items sb (ledger w) (cfg_id botConfig) cs) w res w'"
proof -
  from run_try_run [where sb = sb and botConfig = botConfig and w = w and plat = plat
         and opts = opts and cs = cs, OF ok cs]
  obtain r' w' where "run_try sb plat botConfig opts (initial_results botConfig, w) =
                    (Returned (), (r', w'))"
     "run_effect sb plat botConfig opts (new_items sb (ledger w) (cfg_id botConfig) cs) w r' w'"
    by blast
  then show ?thesis by (simp add: runBot_unfold)
qed



lemma run_effectE:
  assumes "run_effect sb plat botConfig opts todo w res w'"
  obtains created new where "run_record sb plat botConfig opts todo w res w' created new"
  using assms unfolding run_effect_def by blast

lemma run_record_basic:
  assumes "run_record sb plat botConfig opts todo w res w' created new"
  shows "botId res = cfg_id botConfig" "success res" "errors res = []"
    "itemsNew res = length todo" "postsCreated res = length created"
    "profiles w' = profiles w" "ledger w' = ledger w @ new"
    "posts w' = posts w @ map fst created"
    "\<forall>row \<in> set new. marks botConfig created row"
    "map (\<lambda>c. rss_source_url (fst c)) created = map (\<lambda>c. link (snd c)) created"
  using assms by (simp_all add: run_record_def)

lemma run_record_live:
  assumes "run_record sb plat botConfig opts todo w res w' created new" "\<not> dryRun opts"
  shows "map snd created =
           filter (published sb plat botConfig) (slice0 (maxPostsPerRun opts) todo)"
    "filter is_write (requests w') =
       filter is_write (requests w) @
       map (post_request plat botConfig) (slice0 (maxPostsPerRun opts) todo) @
       map (\<lambda>c. mark_request botConfig (snd c)) created"
  using assms by (simp_all add: run_record_def)

lemma run_record_dry:
  assumes "run_record sb plat botConfig opts todo w res w' created new" "dryRun opts"
  shows "created = []" "new = []"
    "filter is_write (requests w') = filter is_write (requests w)"
  using assms by (simp_all add: run_record_def)

lemma run_effect_live:
  assumes "run_effect sb plat botConfig opts todo w res w'" and "\<not> dryRun opts"
  shows "postsCreated res =
           length (filter (published sb plat botConfig) (slice0 (maxPostsPerRun opts) todo)) \<and>
         length (posts w') = length (posts w) + postsCreated res \<and>
         map rss_source_url (drop (length (posts w)) (posts w')) =
           map link (filter (published sb plat botConfig) (slice0 (maxPostsPerRun opts) todo))"
proof -
  from assms(1) obtain created new where
    rr: "run_record sb plat botConfig opts todo w res w' created new"
    by (rule run_effectE)
  note c = run_record_basic [OF rr] run_record_live [OF rr assms(2)]
  from c(11) have l: "length created =
      length (filter (published sb plat botConfig) (slice0 (maxPostsPerRun opts) todo))"
    by (metis length_map)
  have "map rss_source_url (map fst created) = map link (map snd created)"
    using c(10) by (simp add: comp_def)
  with c(5,8,11) l show ?thesis by simp
qed

lemma marks_none [simp]: "\<not> marks botConfig [] r"
  by (simp add: marks_def)

lemma run_effect_quiet:
  assumes "run_effect sb plat botConfig opts [] w res w'"
  shows "success res \<and> postsCreated res = 0 \<and> itemsNew res = 0 \<and> errors res = [] \<and>
         ledger w' = ledger w \<and> posts w' = posts w \<and>
         filter is_write (requests w') = filter is_write (requests w)"
proof -
  from assms obtain created new where
    rr: "run_record sb plat botConfig opts [] w res w' created new"
    by (rule run_effectE)
  note c = run_record_basic [OF rr]
  have e: "created = [] \<and> filter is_write (requests w') = filter is_write (requests w)"
  proof (cases "dryRun opts")
    case True
    from run_record_dry [OF rr True] show ?thesis by simp
  next
    case False
    from run_record_live [OF rr False] show ?thesis by simp
  qed
  with c(9) have "new = []" by (cases new) auto
  with c e show ?thesis by simp
qed




section \<open>Facts about the fixtures\<close>

lemma link_with_source [simp]: "link (with_source plat fd it) = link it"
  by (simp add: with_source_def)

lemma published_healthy [simp]: "published healthy plat botConfig it"
  by (simp add: published_def healthy_def)

lemma verdict_empty [simp]: "\<not> verdict sb [] b it"
  by (simp add: verdict_def guid_hit_def link_hit_def split: fault.splits)

lemma new_items_empty [simp]: "new_items sb [] b xs = xs"
  by (simp add: new_items_def)

lemma start_world_simps [simp]:
  "ledger start_world = []" "posts start_world = []" "profiles start_world = [''bot_news'']"
  "clock start_world = 0" "requests start_world = []"
  by (simp_all add: start_world_def empty_world_def)

lemma serving_candidates:
  "candidates (serving feeds) botConfig default_options now =
     Returned (concat (map (\<lambda>fd. map (with_source (serving feeds) fd) (f_items fd)) feeds))"
  by (simp add: candidates_def serving_def default_options_def)

lemma second_story_keys [simp]:
  "guid second_story = Some ''a2''" "link second_story = Some ''a2''"
  by (simp_all add: second_story_def with_source_def story_def blank_item_def)

section \<open>The per-source cap\<close>

lemma publish_and_record_ignores_feed_cap:
  "publish_and_record sb plat botConfig (opts\<lparr>maxPostsPerFeed := k\<rparr>) =
     publish_and_record sb plat botConfig opts"
  by (rule ext) (simp add: publish_and_record_def)

lemma run_try_ignores_feed_cap:
  "run_try sb plat botConfig (opts\<lparr>maxPostsPerFeed := k\<rparr>) = run_try sb plat botConfig opts"
  unfolding run_try_def run_separately_def run_combined_def
  by (simp add: publish_and_record_ignores_feed_cap cong del: if_weak_cong)

lemma runBot_ignores_feed_cap:
  "runBot sb ai plat botConfig (opts\<lparr>maxPostsPerFeed := k\<rparr>) = runBot sb ai plat botConfig opts"
  unfolding runBot_def by (simp add: run_try_ignores_feed_cap)

text \<open>
  C1. The run of \<open>runBot\<close> in per-source mode on three sources with five, five and one new
  item, with \<open>maxPostsPerFeed = 2\<close> and \<open>maxPostsPerRun = 5\<close>: it creates five posts, all
  five from the first source. \<open>maxPostsPerFeed\<close> is read from the options and never used:
  a run does the same whatever its value.
\<close>

theorem per_source_cap_ignored:
  "(\<exists>res w'. runBot healthy unavailable (serving three_feeds) news_bot default_options
                 start_world = (Returned res, w') \<and>
      maxPostsPerFeed default_options = 2 \<and> maxPostsPerRun default_options = 5 \<and>
      postsCreated res = 5 \<and>
      map rss_source_url (posts w') =
        [Some ''a1'', Some ''a2'', Some ''a3'', Some ''a4'', Some ''a5'']) \<and>
   runBot sb ai plat botConfig (opts\<lparr>maxPostsPerFeed := k\<rparr>) = runBot sb ai plat botConfig opts"
proof -
  have ok: "healthy (SelectProfile (cfg_user_id news_bot)) = Healthy"
    "cfg_user_id news_bot \<in> set (profiles start_world)"
    by (simp_all add: healthy_def news_bot_def)
  let ?cs = "concat (map (\<lambda>fd. map (with_source (serving three_feeds) fd) (f_items fd)) three_feeds)"
  from runBot_run [where sb = healthy and botConfig = news_bot and w = start_world
      and plat = "serving three_feeds" and opts = default_options and ai = unavailable
      and cs = ?cs, OF ok serving_candidates]
  obtain res w' where r: "runBot healthy unavailable (serving three_feeds) news_bot default_options
        start_world = (Returned res, w')"
    and e: "run_effect healthy (serving three_feeds) news_bot default_options
              (new_items healthy (ledger start_world) (cfg_id news_bot) ?cs) start_world res w'"
    by blast
  have live: "\<not> dryRun default_options" by (simp add: default_options_def)
  have s: "map link (slice0 5 ?cs) = [Some ''a1'', Some ''a2'', Some ''a3'', Some ''a4'', Some ''a5'']"
    by (simp add: slice0_def three_feeds_def feed_of_def story_def blank_item_def)
  have t: "filter (published healthy (serving three_feeds) news_bot)
             (slice0 (maxPostsPerRun default_options)
                (new_items healthy (ledger start_world) (cfg_id news_bot) ?cs)) = slice0 5 ?cs"
    by (simp add: default_options_def)
  from run_effect_live [OF e live] have
    "postsCreated res = length (slice0 5 ?cs)"
    "map rss_source_url (posts w') = map link (slice0 5 ?cs)"
    unfolding t by simp_all
  with s have "postsCreated res = 5" "map rss_source_url (posts w') =
       [Some ''a1'', Some ''a2'', Some ''a3'', Some ''a4'', Some ''a5'']"
    by (simp_all add: slice0_def three_feeds_def feed_of_def)
  with r show ?thesis by (simp add: default_options_def runBot_ignores_feed_cap)
qed

section \<open>Runs without new items\<close>

text \<open>
  C8. A run whose profile check succeeds and in which every fetched item is reported
  processed by \<open>isItemProcessed\<close> (per source in per-source mode, over the merged list in
  combined mode) returns results with \<open>success = true\<close>, \<open>postsCreated = 0\<close>, \<open>itemsNew = 0\<close>
  and no error; the ledger and the posts are unchanged, and no insert request was sent.
\<close>

theorem zero_new_items_no_side_effects:
  assumes ok: "sb (SelectProfile (cfg_user_id botConfig)) = Healthy"
      "cfg_user_id botConfig \<in> set (profiles w)"
    and sep: "processFeedsSeparately opts \<Longrightarrow>
      \<exists>feeds. fetchItemsForBotSeparately plat botConfig (fetchWindowMinutes opts) (clock w) =
                 Returned feeds \<and>
              (\<forall>fd \<in> set feeds. \<forall>it \<in> set (f_items fd).
                  fst (isItemProcessed sb (cfg_id botConfig) it w) = Returned True)"
    and comb: "\<not> processFeedsSeparately opts \<Longrightarrow>
      \<forall>it \<in> set (fetchItemsForBot plat (clock w) botConfig (fetchWindowMinutes opts)).
         fst (isItemProcessed sb (cfg_id botConfig) it w) = Returned True"
  shows "\<exists>res w'. runBot sb ai plat botConfig opts w = (Returned res, w') \<and>
           success res \<and> postsCreated res = 0 \<and> itemsNew res = 0 \<and> errors res = [] \<and>
           ledger w' = ledger w \<and> posts w' = posts w \<and>
           filter is_write (requests w') = filter is_write (requests w)"
proof -
  have "\<exists>cs. candidates plat botConfig opts (clock w) = Returned cs \<and>
             new_items sb (ledger w) (cfg_id botConfig) cs = []"
  proof (cases "processFeedsSeparately opts")
    case True
    from sep [OF True] obtain feeds where
      f: "fetchItemsForBotSeparately plat botConfig (fetchWindowMinutes opts) (clock w) =
                 Returned feeds"
      and p: "\<forall>fd \<in> set feeds. \<forall>it \<in> set (f_items fd). verdict sb (ledger w) (cfg_id botConfig) it"
      by (auto simp: isItemProcessed_run)
    from p have "new_items sb (ledger w) (cfg_id botConfig)
        (concat (map (\<lambda>fd. map (with_source plat fd) (f_items fd)) feeds)) = []"
      by (auto simp: new_items_def filter_empty_conv)
    with f True show ?thesis by (simp add: candidates_def)
  next
    case False
    from comb [OF False] have "new_items sb (ledger w) (cfg_id botConfig)
        (map with_placeholders (fetchItemsForBot plat (clock w) botConfig (fetchWindowMinutes opts)))
          = []"
      by (auto simp: new_items_def filter_empty_conv isItemProcessed_run)
    with False show ?thesis by (simp add: candidates_def)
  qed
  then obtain cs where cs: "candidates plat botConfig opts (clock w) = Returned cs"
    and n: "new_items sb (ledger w) (cfg_id botConfig) cs = []" by blast
  from runBot_run [where sb = sb and botConfig = botConfig and w = w and plat = plat
      and opts = opts and ai = ai and cs = cs, OF ok cs]
  obtain res w' where r: "runBot sb ai plat botConfig opts w = (Returned res, w')"
    and e: "run_effect sb plat botConfig opts [] w res w'"
    unfolding n by blast
  from r run_effect_quiet [OF e] show ?thesis by blast
qed

theorem zero_new_items_no_side_effects_witness:
  "\<exists>res w'. runBot healthy unavailable (serving [feed_of ''A'' [''a1'']]) news_bot default_options
        seen_world = (Returned res, w') \<and>
     success res \<and> postsCreated res = 0 \<and> itemsNew res = 0 \<and> errors res = [] \<and>
     ledger w' = ledger seen_world \<and> posts w' = posts seen_world \<and>
     filter is_write (requests w') = filter is_write (requests seen_world)"
proof (rule zero_new_items_no_side_effects)
  show "healthy (SelectProfile (cfg_user_id news_bot)) = Healthy"
    by (simp add: healthy_def)
  show "cfg_user_id news_bot \<in> set (profiles seen_world)"
    by (simp add: news_bot_def seen_world_def)
  show "\<exists>feeds. fetchItemsForBotSeparately (serving [feed_of ''A'' [''a1'']]) news_bot
           (fetchWindowMinutes default_options) (clock seen_world) = Returned feeds \<and>
         (\<forall>fd \<in> set feeds. \<forall>it \<in> set (f_items fd).
            fst (isItemProcessed healthy (cfg_id news_bot) it seen_world) = Returned True)"
    by (simp add: serving_def feed_of_def isItemProcessed_run verdict_def healthy_def
        guid_hit_def guid_query_def seen_world_def seen_def news_bot_def story_def blank_item_def
        text_of_def)
  show "\<forall>it \<in> set (fetchItemsForBot (serving [feed_of ''A'' [''a1'']]) (clock seen_world) news_bot
           (fetchWindowMinutes default_options)).
         fst (isItemProcessed healthy (cfg_id news_bot) it seen_world) = Returned True"
    if "\<not> processFeedsSeparately default_options"
    using that by (simp add: default_options_def)
qed

section \<open>Exceptions stay inside the run\<close>



section \<open>A failed publication is retried\<close>









end
